theory Spec2Isabelle
  imports Main
begin

section \<open>JavaScript values used by doubleclick-a4a-config.js\<close>

text \<open>
  Values a method of the file can return. A method without a \<open>return\<close> statement
  returns \<open>Undefined\<close>.
\<close>

datatype js_value = Undefined | Null | Boolean bool | String string

text \<open>A thrown value, and the \<open>TypeError\<close> the language itself throws.\<close>

datatype js_error = JsError string

definition TypeError :: js_error where
  "TypeError = JsError ''TypeError''"

text \<open>
  A value of Closure type \<open>?string\<close> (also when it may be \<open>undefined\<close>) is a
  \<open>string option\<close>: \<open>None\<close> stands for \<open>null\<close> and \<open>undefined\<close>, which the file
  never tells apart. Such a value is truthy when it is a non-empty string.
\<close>

definition truthy :: "string option \<Rightarrow> bool" where
  "truthy v = (case v of None \<Rightarrow> False | Some s \<Rightarrow> s \<noteq> [])"

text \<open>
  \<open>x == undefined\<close> holds for \<open>null\<close> and \<open>undefined\<close> only.
\<close>

definition looseEqUndefined :: "string option \<Rightarrow> bool" where
  "looseEqUndefined v = (v = None)"

text \<open>
  \<open>x == n\<close> for a number \<open>n\<close>: \<open>null\<close> is not equal to a number, a string is converted
  to a number first. The conversion is modelled on the strings experiment ids are written
  as, an optional sign and decimal digits (the empty string converts to 0). Every other
  string is taken as not a number, which is not what the language does for a string with
  white space around it, a fraction or an exponent: the model is exact only for
  \<open>urlExperimentId\<close> of the modelled form, and no statement below depends on how the
  comparison comes out.
\<close>

definition digitTable :: "(char \<times> int) list" where
  "digitTable =
     [(CHR ''0'', 0), (CHR ''1'', 1), (CHR ''2'', 2), (CHR ''3'', 3), (CHR ''4'', 4),
      (CHR ''5'', 5), (CHR ''6'', 6), (CHR ''7'', 7), (CHR ''8'', 8), (CHR ''9'', 9)]"

fun digitsToNumber :: "int \<Rightarrow> string \<Rightarrow> int option" where
  "digitsToNumber acc [] = Some acc"
| "digitsToNumber acc (c # cs) =
     (case map_of digitTable c of None \<Rightarrow> None | Some d \<Rightarrow> digitsToNumber (10 * acc + d) cs)"

definition unsignedToNumber :: "string \<Rightarrow> int option" where
  "unsignedToNumber s = (if s = [] then None else digitsToNumber 0 s)"

definition stringToNumber :: "string \<Rightarrow> int option" where
  "stringToNumber s =
     (case s of
        [] \<Rightarrow> Some 0
      | c # cs \<Rightarrow>
          if c = CHR ''-'' then map_option uminus (unsignedToNumber cs)
          else if c = CHR ''+'' then unsignedToNumber cs
          else unsignedToNumber s)"

definition looseEqNumber :: "string option \<Rightarrow> int \<Rightarrow> bool" where
  "looseEqNumber v n = (case v of None \<Rightarrow> False | Some s \<Rightarrow> stringToNumber s = Some n)"

text \<open>
  A plain object as the list of its own properties in insertion order. Assigning
  \<open>obj[k] = v\<close> overwrites the own property in place or appends it; \<open>obj[undefined]\<close> reads
  and writes the key \<open>"undefined"\<close>. The key \<open>__proto__\<close> is the exception: it is an
  accessor of \<open>Object.prototype\<close> whose setter ignores a value that is not an object, so
  assigning a boolean under that key leaves the object as it is.
\<close>

fun setProperty :: "string \<Rightarrow> 'v \<Rightarrow> (string \<times> 'v) list \<Rightarrow> (string \<times> 'v) list" where
  "setProperty k v [] = [(k, v)]"
| "setProperty k v (p # ps) = (if fst p = k then (k, v) # ps else p # setProperty k v ps)"

definition assignProperty :: "string \<Rightarrow> bool \<Rightarrow> (string \<times> bool) list \<Rightarrow> (string \<times> bool) list" where
  "assignProperty k v obj = (if k = ''__proto__'' then obj else setProperty k v obj)"

text \<open>
  \<open>Object.keys\<close> lists the own keys that are array indices (decimal numerals without a
  leading zero, below \<open>2^32 - 1\<close>) in ascending numeric order, and after them the other
  keys in insertion order.
\<close>

definition arrayIndex :: "string \<Rightarrow> int option" where
  "arrayIndex k =
     (case k of
        [] \<Rightarrow> None
      | c # cs \<Rightarrow>
          if c = CHR ''0'' \<and> cs \<noteq> [] then None
          else (case digitsToNumber 0 k of
                  None \<Rightarrow> None
                | Some n \<Rightarrow> if n \<le> 4294967294 then Some n else None))"

definition Object_keys :: "(string \<times> 'v) list \<Rightarrow> string list" where
  "Object_keys obj =
     sort_key (\<lambda>k. case arrayIndex k of None \<Rightarrow> 0 | Some n \<Rightarrow> n)
       (filter (\<lambda>k. arrayIndex k \<noteq> None) (map fst obj))
     @ filter (\<lambda>k. arrayIndex k = None) (map fst obj)"

text \<open>The own property of an object under a key, if it has one.\<close>

definition getProperty :: "(string \<times> 'v) list \<Rightarrow> string \<Rightarrow> 'v option" where
  "getProperty obj k = map_of obj k"

definition propertyKey :: "string option \<Rightarrow> string" where
  "propertyKey k = (case k of None \<Rightarrow> ''undefined'' | Some s \<Rightarrow> s)"

text \<open>
  A read \<open>obj[k]\<close> or \<open>obj.k\<close> of a plain object finds the own property or, when there is
  none, the member of \<open>Object.prototype\<close> of that name. The members are those the
  language defines; a page that adds its own to \<open>Object.prototype\<close> is not modelled.
\<close>

datatype 'v property = Own 'v | Inherited string | Missing

definition objectPrototypeMembers :: "string list" where
  "objectPrototypeMembers =
     [''constructor'', ''__defineGetter__'', ''__defineSetter__'', ''hasOwnProperty'',
      ''__lookupGetter__'', ''__lookupSetter__'', ''isPrototypeOf'',
      ''propertyIsEnumerable'', ''toString'', ''valueOf'', ''__proto__'',
      ''toLocaleString'']"

definition readProperty :: "(string \<times> 'v) list \<Rightarrow> string \<Rightarrow> 'v property" where
  "readProperty obj k =
     (case map_of obj k of
        Some v \<Rightarrow> Own v
      | None \<Rightarrow> if k \<in> set objectPrototypeMembers then Inherited k else Missing)"

text \<open>
  An inherited member is a function, except \<open>__proto__\<close>, whose getter returns
  \<open>Object.prototype\<close>; all of them are truthy. Where the file goes on to use such a value
  as an experiment id, the model carries it as the string it converts to: that string is
  its key in the flag map and what an attribute of the element would hold. The text of a
  native function is written as V8 prints it.
\<close>

definition memberString :: "string \<Rightarrow> string" where
  "memberString name =
     (if name = ''__proto__'' then ''[object Object]''
      else ''function '' @ (if name = ''constructor'' then ''Object'' else name)
           @ ''() { [native code] }'')"

definition readId :: "(string \<times> string option) list \<Rightarrow> string \<Rightarrow> string option" where
  "readId obj k =
     (case readProperty obj k of
        Own v \<Rightarrow> v
      | Inherited name \<Rightarrow> Some (memberString name)
      | Missing \<Rightarrow> None)"

text \<open>
  The members of \<open>Object.prototype\<close> whose call without arguments throws a \<open>TypeError\<close>:
  \<open>__defineGetter__\<close> and \<open>__defineSetter__\<close> because their second argument is not
  callable, \<open>__proto__\<close> because \<open>Object.prototype\<close> is not a function.
\<close>

definition throwingMembers :: "string list" where
  "throwingMembers = [''__defineGetter__'', ''__defineSetter__'', ''__proto__'']"

text \<open>
  Calling the inherited member \<open>name\<close> without arguments as a method of \<open>obj\<close>: the
  \<open>TypeError\<close> it throws, or whether what it returns is truthy. \<open>hasOwnProperty\<close> and
  \<open>propertyIsEnumerable\<close> convert the missing argument to the key \<open>"undefined"\<close> and look
  for it among the own properties; \<open>__lookupGetter__\<close> and \<open>__lookupSetter__\<close> return
  \<open>undefined\<close> and \<open>isPrototypeOf\<close> returns \<open>false\<close>; \<open>constructor\<close> returns a new
  object, \<open>valueOf\<close> the object itself, \<open>toString\<close> and \<open>toLocaleString\<close> the string
  \<open>[object Object]\<close>.
\<close>

definition callInherited :: "string \<Rightarrow> (string \<times> 'v) list \<Rightarrow> js_error + bool" where
  "callInherited name obj =
     (if name \<in> set throwingMembers then Inl TypeError
      else if name \<in> set [''hasOwnProperty'', ''propertyIsEnumerable'']
        then Inr (map_of obj ''undefined'' \<noteq> None)
      else if name \<in> set [''__lookupGetter__'', ''__lookupSetter__'', ''isPrototypeOf'']
        then Inr False
      else Inr True)"

text \<open>
  \<open>Array.prototype.forEach\<close> with a callback that changes nothing: the calls are made in
  order, what a call returns is dropped, and an exception thrown by a call ends the loop
  and leaves it.
\<close>

fun forEach_pure :: "'a list \<Rightarrow> ('a \<Rightarrow> js_error + js_value) \<Rightarrow> js_error + js_value" where
  "forEach_pure [] callback = Inr Undefined"
| "forEach_pure (x # xs) callback =
     (case callback x of Inl e \<Rightarrow> Inl e | Inr _ \<Rightarrow> forEach_pure xs callback)"

section \<open>The DOM element and the window\<close>

text \<open>
  An element is read through \<open>getAttribute\<close>, \<open>hasAttribute\<close> and \<open>dataset\<close>.
  \<open>getAttribute\<close> returns \<open>null\<close> for a missing attribute and the value, possibly the
  empty string, for a present one.
\<close>

record dom_element =
  attributes :: "string \<rightharpoonup> string"
  dataset :: "string \<rightharpoonup> string"

definition getAttribute :: "dom_element \<Rightarrow> string \<Rightarrow> string option" where
  "getAttribute el name = attributes el name"

definition hasAttribute :: "dom_element \<Rightarrow> string \<Rightarrow> bool" where
  "hasAttribute el name = (attributes el name \<noteq> None)"

definition inDataset :: "string \<Rightarrow> dom_element \<Rightarrow> bool" where
  "inDataset name el = (dataset el name \<noteq> None)"

record mode =
  localDev :: bool
  test :: bool

text \<open>
  The entry of \<open>experimentInfoMap\<close> that \<open>maybeSelectExperiment\<close> builds.
\<close>

record 'w ExperimentInfo =
  isTrafficEligible :: "'w \<Rightarrow> bool"
  branches :: "string list option"

text \<open>
  The window is opaque (type \<open>'w\<close>). What the file imports from
  \<open>ads/google/a4a/traffic-experiments\<close>, \<open>ads/google/a4a/utils\<close>, \<open>src/experiments\<close> and
  \<open>src/mode\<close>, and the one property it reads from the window, are parameters of the
  model. The two calls of the bucketing utility that \<open>maybeSelectExperiment\<close> makes can
  throw; \<open>randomlySelectUnsetExperiments\<close> also returns the window as it leaves it.
\<close>

record 'w env =
  MANUAL_EXPERIMENT_ID :: string
  extractUrlExperimentId :: "'w \<Rightarrow> dom_element \<Rightarrow> string option"
  addExperimentIdToElement :: "string \<Rightarrow> dom_element \<Rightarrow> dom_element"
  supportsNativeCrypto :: "'w \<Rightarrow> bool"
  getExperimentBranch :: "'w \<Rightarrow> string \<Rightarrow> js_error + string option"
  forceExperimentBranch :: "'w \<Rightarrow> string \<Rightarrow> string \<Rightarrow> 'w"
  randomlySelectUnsetExperiments ::
    "'w \<Rightarrow> (string \<times> 'w ExperimentInfo) list \<Rightarrow> (js_error + unit) \<times> 'w"
  getMode :: "'w \<Rightarrow> mode"
  location_origin :: "'w \<Rightarrow> string"

section \<open>Constants of the file\<close>

definition DOUBLECLICK_A4A_EXPERIMENT_NAME :: string where
  "DOUBLECLICK_A4A_EXPERIMENT_NAME = ''expDoubleclickA4A''"

definition DFP_CANONICAL_FF_EXPERIMENT_NAME :: string where
  "DFP_CANONICAL_FF_EXPERIMENT_NAME = ''expDfpCanonicalFf''"

definition DOUBLECLICK_UNCONDITIONED_EXPERIMENT_NAME :: string where
  "DOUBLECLICK_UNCONDITIONED_EXPERIMENT_NAME = ''expUnconditionedDoubleclick''"

definition DOUBLECLICK_EXPERIMENT_FEATURE :: "(string \<times> string) list" where
  "DOUBLECLICK_EXPERIMENT_FEATURE =
     [(''HOLDBACK_EXTERNAL_CONTROL'', ''21060726''),
      (''HOLDBACK_EXTERNAL'', ''21060727''),
      (''DELAYED_REQUEST_CONTROL'', ''21060728''),
      (''DELAYED_REQUEST'', ''21060729''),
      (''SRA_CONTROL'', ''117152666''),
      (''SRA'', ''117152667''),
      (''HOLDBACK_INTERNAL_CONTROL'', ''2092613''),
      (''HOLDBACK_INTERNAL'', ''2092614''),
      (''CANONICAL_CONTROL'', ''21060932''),
      (''CANONICAL_EXPERIMENT'', ''21060933''),
      (''CACHE_EXTENSION_INJECTION_CONTROL'', ''21060955''),
      (''CACHE_EXTENSION_INJECTION_EXP'', ''21060956''),
      (''IDENTITY_CONTROL'', ''21060937''),
      (''IDENTITY_EXPERIMENT'', ''21060938''),
      (''UNCONDITIONED_FF_CONTROL'', ''21061145''),
      (''UNCONDITIONED_FF_EXPERIMENT'', ''21061146'')]"

text \<open>
  \<open>DOUBLECLICK_EXPERIMENT_FEATURE.NAME\<close>: the value of the property, \<open>undefined\<close>
  (\<open>None\<close>) when the enum has no such member.
\<close>

definition FEATURE :: "string \<Rightarrow> string option" where
  "FEATURE name = readId (map (\<lambda>(k, v). (k, Some v)) DOUBLECLICK_EXPERIMENT_FEATURE) name"

definition DOUBLECLICK_UNCONDITIONED_EXPERIMENTS :: "(string \<times> string) list" where
  "DOUBLECLICK_UNCONDITIONED_EXPERIMENTS =
     [(''FF_CANONICAL_CTL'', ''21061145''), (''FF_CANONICAL_EXP'', ''21061146'')]"

definition UNCONDITIONED :: "string \<Rightarrow> string option" where
  "UNCONDITIONED name =
     readId (map (\<lambda>(k, v). (k, Some v)) DOUBLECLICK_UNCONDITIONED_EXPERIMENTS) name"

definition URL_EXPERIMENT_MAPPING :: "string \<Rightarrow> (string \<times> string option) list" where
  "URL_EXPERIMENT_MAPPING manual =
     [(''-1'', Some manual),
      (''0'', None),
      (''1'', FEATURE ''HOLDBACK_EXTERNAL_CONTROL''),
      (''2'', FEATURE ''HOLDBACK_EXTERNAL''),
      (''3'', FEATURE ''DELAYED_REQUEST_CONTROL''),
      (''4'', FEATURE ''DELAYED_REQUEST''),
      (''5'', FEATURE ''IDENTITY_CONTROL''),
      (''6'', FEATURE ''IDENTITY_EXPERIMENT''),
      (''7'', FEATURE ''SRA_CONTROL''),
      (''8'', FEATURE ''SRA''),
      (''9'', FEATURE ''CACHE_EXTENSION_INJECTION_CONTROL''),
      (''10'', FEATURE ''CACHE_EXTENSION_INJECTION_EXP'')]"

definition BETA_ATTRIBUTE :: string where
  "BETA_ATTRIBUTE = ''data-use-beta-a4a-implementation''"

definition BETA_EXPERIMENT_ID :: string where
  "BETA_EXPERIMENT_ID = ''2077831''"

section \<open>The class DoubleclickA4aEligibility\<close>

text \<open>
  The field \<open>activeExperiments_\<close> and the method \<open>unconditionedSelection_\<close> are written
  without the final underscore, which a name cannot end with here.
\<close>

record DoubleclickA4aEligibility =
  activeExperiments :: "(string \<times> bool) list"

definition constructor :: DoubleclickA4aEligibility where
  "constructor = \<lparr>activeExperiments = []\<rparr>"

text \<open>
  The calls a method makes into the imported modules that change the window or the
  element, in the order they are made, and the exceptions those calls throw.
\<close>

datatype event =
    SelectCall string "string list option"
  | BranchCall string
  | AddIdCall string
  | ForceCall string string
  | Raised js_error

text \<open>
  The objects a call works on: the window and the element it is given, the singleton it is
  a method of, and the log of calls made so far.
\<close>

record 'w heap =
  win :: 'w
  element :: dom_element
  singleton :: DoubleclickA4aEligibility
  calls :: "event list"

definition supportsCrypto :: "'w env \<Rightarrow> 'w \<Rightarrow> bool" where
  "supportsCrypto X w = supportsNativeCrypto X w"

subsection \<open>isCdnProxy\<close>

text \<open>
  The regular expression
  \<^verbatim>\<open>/^https:\/\/([a-zA-Z0-9_-]+\.)?cdn\.ampproject\.org((\/.*)|($))+/\<close>
  is anchored at the start only. After the host name it needs a \<open>/\<close> or the end of the
  input; the class \<open>[a-zA-Z0-9_-]\<close> has no dot, so the optional label is the whole run of
  such characters before the next dot.
\<close>

definition labelChar :: "char \<Rightarrow> bool" where
  "labelChar c =
     (c \<in> set ''abcdefghijklmnopqrstuvwxyzABCDEFGHIJKLMNOPQRSTUVWXYZ0123456789_-'')"

fun stripPrefix :: "string \<Rightarrow> string \<Rightarrow> string option" where
  "stripPrefix [] s = Some s"
| "stripPrefix (p # ps) [] = None"
| "stripPrefix (p # ps) (c # cs) = (if p = c then stripPrefix ps cs else None)"

definition cdnHostAndRest :: "string \<Rightarrow> bool" where
  "cdnHostAndRest s =
     (case stripPrefix ''cdn.ampproject.org'' s of
        None \<Rightarrow> False
      | Some t \<Rightarrow> (case t of [] \<Rightarrow> True | c # _ \<Rightarrow> c = CHR ''/''))"

definition googleCdnProxyRegex_test :: "string \<Rightarrow> bool" where
  "googleCdnProxyRegex_test s =
     (case stripPrefix ''https://'' s of
        None \<Rightarrow> False
      | Some r \<Rightarrow>
          (takeWhile labelChar r \<noteq> [] \<and>
           (case dropWhile labelChar r of
              [] \<Rightarrow> False
            | c # r' \<Rightarrow> c = CHR ''.'' \<and> cdnHostAndRest r'))
          \<or> cdnHostAndRest r)"

definition isCdnProxy :: "'w env \<Rightarrow> 'w \<Rightarrow> bool" where
  "isCdnProxy X w = googleCdnProxyRegex_test (location_origin X w)"

subsection \<open>maybeSelectExperiment\<close>

definition maybeSelectExperiment ::
  "'w env \<Rightarrow> string list option \<Rightarrow> string \<Rightarrow> 'w heap \<Rightarrow> (js_error + string option) \<times> 'w heap"
where
  "maybeSelectExperiment X selectionBranches experimentName h =
     (let experimentInfoMap =
            [(experimentName,
              \<lparr>isTrafficEligible = (\<lambda>w. True), branches = selectionBranches\<rparr>)];
          h1 = h\<lparr>calls := calls h @ [SelectCall experimentName selectionBranches]\<rparr>
      in case randomlySelectUnsetExperiments X (win h1) experimentInfoMap of
           (Inl e, w') \<Rightarrow> (Inl e, h1\<lparr>win := w', calls := calls h1 @ [Raised e]\<rparr>)
         | (Inr u, w') \<Rightarrow>
             (let h2 = h1\<lparr>win := w', calls := calls h1 @ [BranchCall experimentName]\<rparr>
              in case getExperimentBranch X (win h2) experimentName of
                   Inl e \<Rightarrow> (Inl e, h2\<lparr>calls := calls h2 @ [Raised e]\<rparr>)
                 | Inr branch \<Rightarrow> (Inr branch, h2)))"

subsection \<open>unconditionedSelection_\<close>

definition unconditionedSelection :: "'w env \<Rightarrow> 'w heap \<Rightarrow> (js_error + js_value) \<times> 'w heap" where
  "unconditionedSelection X h =
     (case maybeSelectExperiment X
             (those [UNCONDITIONED ''FF_CANONICAL_CTL'', UNCONDITIONED ''FF_CANONICAL_EXP''])
             DOUBLECLICK_UNCONDITIONED_EXPERIMENT_NAME h of
        (Inl e, h1) \<Rightarrow> (Inl e, h1)
      | (Inr experimentId, h1) \<Rightarrow>
          (case experimentId of
             Some eid \<Rightarrow>
               if truthy experimentId then
                 (Inr Undefined,
                  h1\<lparr>element := addExperimentIdToElement X eid (element h1),
                     win := forceExperimentBranch X (win h1)
                              DOUBLECLICK_UNCONDITIONED_EXPERIMENT_NAME eid,
                     singleton := (singleton h1)\<lparr>activeExperiments :=
                        assignProperty eid True (activeExperiments (singleton h1))\<rparr>,
                     calls := calls h1 @
                        [AddIdCall eid,
                         ForceCall DOUBLECLICK_UNCONDITIONED_EXPERIMENT_NAME eid]\<rparr>)
               else (Inr Undefined, h1)
           | None \<Rightarrow> (Inr Undefined, h1)))"

subsection \<open>selectA4aExperiments\<close>

text \<open>
  The constant \<open>isFastFetchEligible\<close>, computed by the same expression in
  \<open>selectA4aExperiments\<close> and in \<open>shouldUseFastFetch\<close>.
\<close>

definition isFastFetchEligible :: "bool \<Rightarrow> dom_element \<Rightarrow> bool" where
  "isFastFetchEligible useRemoteHtml el =
     (\<not> ((useRemoteHtml \<and> \<not> truthy (getAttribute el ''rtc-config'')) \<or>
         inDataset ''useSameDomainRenderingUntilDeprecated'' el \<or>
         hasAttribute el ''useSameDomainRenderingUntilDeprecated''))"

text \<open>
  An entry of the list \<open>experiments\<close>. A missing \<open>forceExperimentId\<close> or
  \<open>experimentBranchIds\<close> is \<open>undefined\<close>. The list is a function of the constants its
  closures capture; \<open>isFastFetchEligible'\<close> and \<open>isCdnProxy'\<close> are the local constants
  \<open>isFastFetchEligible\<close> and \<open>isCdnProxy\<close> of \<open>selectA4aExperiments\<close>.
\<close>

record a4a_experiment =
  forceExperimentId :: "string option"
  experimentBranchIds :: "string list option"
  experimentName :: string
  diversionCriteria :: "unit \<Rightarrow> bool"

definition experiments ::
  "string \<Rightarrow> bool \<Rightarrow> bool \<Rightarrow> string option \<Rightarrow> bool \<Rightarrow> bool \<Rightarrow> a4a_experiment list"
where
  "experiments manual isFastFetchEligible' isCdnProxy' urlExperimentId isDevMode hasBetaAttribute =
     [\<lparr>forceExperimentId = Some manual,
       experimentBranchIds = None,
       experimentName = DFP_CANONICAL_FF_EXPERIMENT_NAME,
       diversionCriteria = (\<lambda>_.
         isFastFetchEligible' \<and> \<not> isCdnProxy' \<and> looseEqNumber urlExperimentId (- 1)
         \<and> isDevMode)\<rparr>,
      \<lparr>forceExperimentId = None,
       experimentBranchIds =
         those [FEATURE ''CANONICAL_CONTROL'', FEATURE ''CANONICAL_EXPERIMENT''],
       experimentName = DFP_CANONICAL_FF_EXPERIMENT_NAME,
       diversionCriteria = (\<lambda>_.
         isFastFetchEligible' \<and> \<not> isCdnProxy' \<and>
         (\<not> looseEqNumber urlExperimentId (- 1) \<or> \<not> isDevMode))\<rparr>,
      \<lparr>forceExperimentId = None,
       experimentBranchIds =
         those [FEATURE ''HOLDBACK_INTERNAL_CONTROL'', FEATURE ''HOLDBACK_INTERNAL''],
       experimentName = DOUBLECLICK_A4A_EXPERIMENT_NAME,
       diversionCriteria = (\<lambda>_.
         isFastFetchEligible' \<and> isCdnProxy' \<and> looseEqUndefined urlExperimentId
         \<and> \<not> hasBetaAttribute)\<rparr>,
      \<lparr>forceExperimentId =
         (if truthy urlExperimentId
          then readId (URL_EXPERIMENT_MAPPING manual) (propertyKey urlExperimentId)
          else None),
       experimentBranchIds = None,
       experimentName = DOUBLECLICK_A4A_EXPERIMENT_NAME,
       diversionCriteria = (\<lambda>_.
         isFastFetchEligible' \<and> isCdnProxy' \<and> \<not> looseEqUndefined urlExperimentId
         \<and> \<not> hasBetaAttribute)\<rparr>,
      \<lparr>forceExperimentId = Some BETA_EXPERIMENT_ID,
       experimentBranchIds = None,
       experimentName = DOUBLECLICK_A4A_EXPERIMENT_NAME,
       diversionCriteria = (\<lambda>_.
         isFastFetchEligible' \<and> isCdnProxy' \<and> hasBetaAttribute)\<rparr>]"

text \<open>The body of the callback passed to \<open>experiments.forEach\<close>.\<close>

definition selectCallback :: "'w env \<Rightarrow> a4a_experiment \<Rightarrow> 'w heap \<Rightarrow> (js_error + js_value) \<times> 'w heap" where
  "selectCallback X ex h =
     (if diversionCriteria ex () then
        (case (if truthy (forceExperimentId ex) then (Inr (forceExperimentId ex), h)
               else maybeSelectExperiment X (experimentBranchIds ex) (experimentName ex) h) of
           (Inl e, h1) \<Rightarrow> (Inl e, h1)
         | (Inr experimentId, h1) \<Rightarrow>
             (case experimentId of
                Some eid \<Rightarrow>
                  if truthy experimentId then
                    (Inr Undefined,
                     h1\<lparr>element := addExperimentIdToElement X eid (element h1),
                        win := forceExperimentBranch X (win h1)
                                 DOUBLECLICK_A4A_EXPERIMENT_NAME eid,
                        singleton := (singleton h1)\<lparr>activeExperiments :=
                           assignProperty eid True (activeExperiments (singleton h1))\<rparr>,
                        calls := calls h1 @
                           [AddIdCall eid, ForceCall DOUBLECLICK_A4A_EXPERIMENT_NAME eid]\<rparr>)
                  else (Inr Undefined, h1)
              | None \<Rightarrow> (Inr Undefined, h1)))
      else (Inr Undefined, h))"

text \<open>
  \<open>experiments.forEach(callback)\<close>: every entry is visited in order; an exception thrown
  by the callback ends the loop and leaves it.
\<close>

fun forEach_experiments ::
  "'w env \<Rightarrow> a4a_experiment list \<Rightarrow> 'w heap \<Rightarrow> (js_error + js_value) \<times> 'w heap"
where
  "forEach_experiments X [] h = (Inr Undefined, h)"
| "forEach_experiments X (ex # exs) h =
     (case selectCallback X ex h of
        (Inl e, h1) \<Rightarrow> (Inl e, h1)
      | (Inr _, h1) \<Rightarrow> forEach_experiments X exs h1)"

definition selectA4aExperiments ::
  "'w env \<Rightarrow> bool \<Rightarrow> 'w heap \<Rightarrow> (js_error + js_value) \<times> 'w heap"
where
  "selectA4aExperiments X useRemoteHtml h =
     (case unconditionedSelection X h of
        (Inl e, h1) \<Rightarrow> (Inl e, h1)
      | (Inr _, h1) \<Rightarrow>
          forEach_experiments X
            (experiments (MANUAL_EXPERIMENT_ID X)
               (isFastFetchEligible useRemoteHtml (element h1))
               (isCdnProxy X (win h1))
               (extractUrlExperimentId X (win h1) (element h1))
               (localDev (getMode X (win h1)) \<or> test (getMode X (win h1)))
               (hasAttribute (element h1) BETA_ATTRIBUTE))
            h1)"

subsection \<open>shouldUseFastFetch\<close>

definition fastFetchIneligibleExperiments :: "string option list" where
  "fastFetchIneligibleExperiments =
     [FEATURE ''HOLDBACK_EXTERNAL'',
      FEATURE ''HOLDBACK_INTERNAL'',
      FEATURE ''CANONICAL_CONTROL'',
      FEATURE ''UNCONDITIONED_FF_CANONICAL_CTL'']"

definition fastFetchPredicates ::
  "'w env \<Rightarrow> bool \<Rightarrow> 'w heap \<Rightarrow> (string \<times> (unit \<Rightarrow> bool)) list"
where
  "fastFetchPredicates X useRemoteHtml h =
     setProperty (propertyKey (FEATURE ''UNCONDITIONED_FF_CANONICAL_EXP''))
       (\<lambda>_. isFastFetchEligible useRemoteHtml (element h) \<and> \<not> isCdnProxy X (win h) \<and>
            \<not> (looseEqNumber (extractUrlExperimentId X (win h) (element h)) (- 1) \<and>
               (localDev (getMode X (win h)) \<or> test (getMode X (win h))))
            \<and> \<not> supportsCrypto X (win h))
       []"

text \<open>
  The callback of \<open>Object.keys(this.activeExperiments_).forEach\<close>: its \<open>return false\<close>
  is the callback's own return value. When the id is not in the ineligible list, the
  callback reads \<open>fastFetchPredicates[experimentId]\<close> and, the value being truthy, calls
  it; for an id that names a member of \<open>Object.prototype\<close> the value is that member. The
  call of \<open>console.log\<close> after the loop writes to the console only and is left out.
\<close>

definition fastFetchCallback ::
  "'w env \<Rightarrow> bool \<Rightarrow> 'w heap \<Rightarrow> string \<Rightarrow> js_error + js_value"
where
  "fastFetchCallback X useRemoteHtml h experimentId =
     (if Some experimentId \<in> set fastFetchIneligibleExperiments then Inr (Boolean False)
      else
        (case readProperty (fastFetchPredicates X useRemoteHtml h) experimentId of
           Missing \<Rightarrow> Inr Undefined
         | Own predicate \<Rightarrow> if \<not> predicate () then Inr (Boolean False) else Inr Undefined
         | Inherited name \<Rightarrow>
             (case callInherited name (fastFetchPredicates X useRemoteHtml h) of
                Inl e \<Rightarrow> Inl e
              | Inr result \<Rightarrow> if \<not> result then Inr (Boolean False) else Inr Undefined)))"

definition shouldUseFastFetch ::
  "'w env \<Rightarrow> bool \<Rightarrow> 'w heap \<Rightarrow> (js_error + js_value) \<times> 'w heap"
where
  "shouldUseFastFetch X useRemoteHtml h =
     (case forEach_pure (Object_keys (activeExperiments (singleton h)))
             (fastFetchCallback X useRemoteHtml h) of
        Inl e \<Rightarrow> (Inl e, h)
      | Inr _ \<Rightarrow> (Inr (Boolean (isFastFetchEligible useRemoteHtml (element h) \<and>
                                isCdnProxy X (win h))), h))"

subsection \<open>isA4aEnabled and the exported functions\<close>

definition isA4aEnabled :: "'w env \<Rightarrow> bool \<Rightarrow> 'w heap \<Rightarrow> (js_error + js_value) \<times> 'w heap" where
  "isA4aEnabled X useRemoteHtml h =
     (case selectA4aExperiments X useRemoteHtml h of
        (Inl e, h1) \<Rightarrow> (Inl e, h1)
      | (Inr _, h1) \<Rightarrow> shouldUseFastFetch X useRemoteHtml h1)"

definition doubleclickIsA4AEnabled ::
  "'w env \<Rightarrow> bool \<Rightarrow> 'w heap \<Rightarrow> (js_error + js_value) \<times> 'w heap"
where
  "doubleclickIsA4AEnabled X useRemoteHtml h = isA4aEnabled X useRemoteHtml h"

definition experimentFeatureEnabled ::
  "'w env \<Rightarrow> 'w \<Rightarrow> string \<Rightarrow> string option \<Rightarrow> js_error + js_value"
where
  "experimentFeatureEnabled X w feature opt_experimentName =
     (let experimentName =
            (case opt_experimentName of
               Some n \<Rightarrow> if truthy opt_experimentName then n else DOUBLECLICK_A4A_EXPERIMENT_NAME
             | None \<Rightarrow> DOUBLECLICK_A4A_EXPERIMENT_NAME)
      in case getExperimentBranch X w experimentName of
           Inl e \<Rightarrow> Inl e
         | Inr branch \<Rightarrow> Inr (Boolean (branch = Some feature)))"

section \<open>Sequences of calls on the singleton\<close>

text \<open>
  The module creates one \<open>DoubleclickA4aEligibility\<close> when it is loaded, and every call of
  \<open>doubleclickIsA4AEnabled\<close> works on it. A request names the window, the element and the
  flag of one call. The singleton and the log are carried from call to call, also after a
  call that ended in an exception.
\<close>

type_synonym 'w request = "'w \<times> dom_element \<times> bool"

fun session ::
  "'w env \<Rightarrow> 'w request list \<Rightarrow> DoubleclickA4aEligibility \<times> event list \<Rightarrow>
   DoubleclickA4aEligibility \<times> event list"
where
  "session X [] st = st"
| "session X ((w, el, useRemoteHtml) # rs) st =
     (let h1 = snd (doubleclickIsA4AEnabled X useRemoteHtml
                      \<lparr>win = w, element = el, singleton = fst st, calls = snd st\<rparr>)
      in session X rs (singleton h1, calls h1))"

text \<open>The ids passed to \<open>forceExperimentBranch\<close> and to \<open>addExperimentIdToElement\<close> in a log.\<close>

fun forcedIds :: "event list \<Rightarrow> string list" where
  "forcedIds [] = []"
| "forcedIds (ForceCall name eid # evs) = eid # forcedIds evs"
| "forcedIds (ev # evs) = forcedIds evs"

fun addedIds :: "event list \<Rightarrow> string list" where
  "addedIds [] = []"
| "addedIds (AddIdCall eid # evs) = eid # addedIds evs"
| "addedIds (ev # evs) = addedIds evs"

text \<open>
  An entry of the flag map that a log accounts for: its value is \<open>true\<close> and its key was
  passed to \<open>forceExperimentBranch\<close> and to \<open>addExperimentIdToElement\<close>.
\<close>

definition forcedAndAdded :: "event list \<Rightarrow> string \<times> bool \<Rightarrow> bool" where
  "forcedAndAdded evs p =
     (snd p \<and> fst p \<in> set (forcedIds evs) \<and> fst p \<in> set (addedIds evs))"

text \<open>The part of the log of \<open>h1\<close> that was written after \<open>h\<close>.\<close>

definition newCalls :: "'w heap \<Rightarrow> 'w heap \<Rightarrow> event list" where
  "newCalls h h1 = drop (length (calls h)) (calls h1)"

section \<open>Statements of the specification to compare the code with\<close>

text \<open>
  First match wins: the entries are tried in order, the first whose condition holds is
  processed, and the entries after it are not looked at.
\<close>

fun firstMatch ::
  "'w env \<Rightarrow> a4a_experiment list \<Rightarrow> 'w heap \<Rightarrow> (js_error + js_value) \<times> 'w heap"
where
  "firstMatch X [] h = (Inr Undefined, h)"
| "firstMatch X (ex # exs) h =
     (if diversionCriteria ex () then selectCallback X ex h else firstMatch X exs h)"

text \<open>
  Fast-fetch eligibility with \<open>lacks an 'rtc-config' attribute\<close> read as the attribute
  being absent.
\<close>

definition eligibleByPresence :: "bool \<Rightarrow> dom_element \<Rightarrow> bool" where
  "eligibleByPresence useRemoteHtml el =
     (\<not> (useRemoteHtml \<and> \<not> hasAttribute el ''rtc-config'') \<and>
      \<not> inDataset ''useSameDomainRenderingUntilDeprecated'' el \<and>
      \<not> hasAttribute el ''useSameDomainRenderingUntilDeprecated'')"

definition isStringOrNull :: "js_value \<Rightarrow> bool" where
  "isStringOrNull v = (case v of String s \<Rightarrow> True | Null \<Rightarrow> True | _ \<Rightarrow> False)"

text \<open>The outcome of a call is a returned string or a returned \<open>null\<close>.\<close>

definition returnsStringOrNull :: "js_error + js_value \<Rightarrow> bool" where
  "returnsStringOrNull r = (case r of Inl e \<Rightarrow> False | Inr v \<Rightarrow> isStringOrNull v)"

text \<open>
  No key of the object names a member of \<open>Object.prototype\<close> whose call throws.
\<close>

definition noThrowingKey :: "(string \<times> 'v) list \<Rightarrow> bool" where
  "noThrowingKey obj = list_all (\<lambda>k. k \<notin> set throwingMembers) (Object_keys obj)"

section \<open>Summaries of what a step does\<close>

text \<open>
  The three statements that follow a successful selection: the id is added to the element,
  the branch is forced on the window, and the id is set in the flag map.
\<close>

definition forceAndRecord :: "'w env \<Rightarrow> string \<Rightarrow> string \<Rightarrow> 'w heap \<Rightarrow> 'w heap" where
  "forceAndRecord X name eid h =
     h\<lparr>element := addExperimentIdToElement X eid (element h),
       win := forceExperimentBranch X (win h) name eid,
       singleton := (singleton h)\<lparr>activeExperiments :=
          assignProperty eid True (activeExperiments (singleton h))\<rparr>,
       calls := calls h @ [AddIdCall eid, ForceCall name eid]\<rparr>"

text \<open>
  \<open>logged h r evs\<close>: the step from \<open>h\<close> with outcome \<open>r\<close> appended \<open>evs\<close> to the log, and
  it ended in the exception \<open>e\<close> when \<open>evs\<close> records that the utility threw \<open>e\<close>.
\<close>

definition logged :: "'w heap \<Rightarrow> (js_error + 'a) \<times> 'w heap \<Rightarrow> event list \<Rightarrow> bool" where
  "logged h r evs \<longleftrightarrow>
     calls (snd r) = calls h @ evs \<and> (\<forall>e. Raised e \<in> set evs \<longrightarrow> fst r = Inl e)"

text \<open>
  \<open>recorded s s1 evs\<close>: every entry of the flag map of \<open>s1\<close> is an entry of \<open>s\<close> or has the
  value \<open>true\<close> and an id that \<open>evs\<close> shows forced and added to the element; no key of
  \<open>s\<close> is lost, and no \<open>true\<close> entry changes.
\<close>

definition recorded ::
  "DoubleclickA4aEligibility \<Rightarrow> DoubleclickA4aEligibility \<Rightarrow> event list \<Rightarrow> bool"
where
  "recorded s s1 evs \<longleftrightarrow>
     (\<forall>k v. (k, v) \<in> set (activeExperiments s1) \<longrightarrow>
        (k, v) \<in> set (activeExperiments s) \<or>
        (v \<and> k \<in> set (forcedIds evs) \<and> k \<in> set (addedIds evs))) \<and>
     set (Object_keys (activeExperiments s)) \<subseteq> set (Object_keys (activeExperiments s1)) \<and>
     (\<forall>k. map_of (activeExperiments s) k = Some True \<longrightarrow>
          map_of (activeExperiments s1) k = Some True)"

definition effect :: "'w heap \<Rightarrow> (js_error + 'a) \<times> 'w heap \<Rightarrow> event list \<Rightarrow> bool" where
  "effect h r evs \<longleftrightarrow> logged h r evs \<and> recorded (singleton h) (singleton (snd r)) evs"

section \<open>An instance of the parameters\<close>

text \<open>
  A window on which the model can be run. It holds the origin, the experiment id of the
  URL, the mode, the branches chosen so far (\<open>win.experimentBranches\<close>), the index the
  random choice falls on, and the experiment names for which the random selection and the
  branch lookup throw. The
  utility leaves an experiment that already has a branch alone and otherwise picks the
  branch at the index; the element keeps its experiment ids, comma separated, in the
  attribute \<open>data-experiment-id\<close>.
\<close>

record test_window =
  tw_origin :: string
  tw_urlExperimentId :: "string option"
  tw_mode :: mode
  tw_crypto :: bool
  tw_experimentBranches :: "(string \<times> string option) list"
  tw_random :: nat
  tw_failSelect :: "string list"
  tw_failBranch :: "string list"

fun test_select ::
  "(string \<times> test_window ExperimentInfo) list \<Rightarrow> test_window \<Rightarrow> test_window"
where
  "test_select [] w = w"
| "test_select ((name, info) # rest) w =
     test_select rest
       (case getProperty (tw_experimentBranches w) name of
          Some b \<Rightarrow> w
        | None \<Rightarrow>
            (case branches info of
               None \<Rightarrow> w
             | Some bs \<Rightarrow>
                 if bs = [] \<or> \<not> isTrafficEligible info w then w
                 else w\<lparr>tw_experimentBranches :=
                        setProperty name (Some (bs ! (tw_random w mod length bs)))
                          (tw_experimentBranches w)\<rparr>))"

definition test_env :: "test_window env" where
  "test_env =
     \<lparr>MANUAL_EXPERIMENT_ID = ''117152632'',
      extractUrlExperimentId = (\<lambda>w el. tw_urlExperimentId w),
      addExperimentIdToElement = (\<lambda>eid el.
        el\<lparr>attributes := (attributes el)(''data-experiment-id'' \<mapsto>
              (case attributes el ''data-experiment-id'' of
                 None \<Rightarrow> eid
               | Some ids \<Rightarrow> ids @ '','' @ eid))\<rparr>),
      supportsNativeCrypto = tw_crypto,
      getExperimentBranch = (\<lambda>w name.
        if name \<in> set (tw_failBranch w) then Inl (JsError ''getExperimentBranch'')
        else Inr (case getProperty (tw_experimentBranches w) name of
                    None \<Rightarrow> None
                  | Some b \<Rightarrow> b)),
      forceExperimentBranch = (\<lambda>w name eid.
        w\<lparr>tw_experimentBranches := setProperty name (Some eid) (tw_experimentBranches w)\<rparr>),
      randomlySelectUnsetExperiments = (\<lambda>w infoMap.
        if \<exists>name \<in> set (map fst infoMap). name \<in> set (tw_failSelect w)
        then (Inl (JsError ''randomlySelectUnsetExperiments''), w)
        else (Inr (), test_select infoMap w)),
      getMode = tw_mode,
      location_origin = tw_origin\<rparr>"

definition test_win :: "string \<Rightarrow> string option \<Rightarrow> bool \<Rightarrow> nat \<Rightarrow> test_window" where
  "test_win origin url dev r =
     \<lparr>tw_origin = origin, tw_urlExperimentId = url,
      tw_mode = \<lparr>localDev = dev, test = False\<rparr>, tw_crypto = True,
      tw_experimentBranches = [], tw_random = r, tw_failSelect = [], tw_failBranch = []\<rparr>"

definition test_element :: "(string \<times> string) list \<Rightarrow> (string \<times> string) list \<Rightarrow> dom_element" where
  "test_element attrs data = \<lparr>attributes = map_of attrs, dataset = map_of data\<rparr>"

definition test_heap ::
  "test_window \<Rightarrow> dom_element \<Rightarrow> (string \<times> bool) list \<Rightarrow> test_window heap"
where
  "test_heap w el active =
     \<lparr>win = w, element = el, singleton = \<lparr>activeExperiments = active\<rparr>, calls = []\<rparr>"

section \<open>Properties of the object model\<close>

lemma set_Object_keys: "set (Object_keys obj) = fst ` set obj"
  by (auto simp: Object_keys_def)

lemma set_keys_setProperty:
  "set (Object_keys (setProperty k v ps)) = insert k (set (Object_keys ps))"
  unfolding set_Object_keys by (induction ps) auto

lemma in_setProperty:
  "(k', v') \<in> set (setProperty k v ps) \<Longrightarrow> (k', v') = (k, v) \<or> (k', v') \<in> set ps"
  by (induction ps) (auto split: if_splits)

lemma map_of_setProperty: "map_of (setProperty k v ps) = (map_of ps)(k \<mapsto> v)"
  by (induction ps) (auto simp: fun_eq_iff)

lemma forcedIds_append: "forcedIds (xs @ ys) = forcedIds xs @ forcedIds ys"
  by (induction xs rule: forcedIds.induct) simp_all

lemma addedIds_append: "addedIds (xs @ ys) = addedIds xs @ addedIds ys"
  by (induction xs rule: addedIds.induct) simp_all

lemma logged_trans:
  assumes "logged h r1 evs1" "fst r1 = Inr v" "logged (snd r1) r2 evs2"
  shows "logged h r2 (evs1 @ evs2)"
  using assms unfolding logged_def by auto

lemma recorded_refl: "recorded s s evs"
  unfolding recorded_def by simp

lemma recorded_trans:
  assumes "recorded s s1 evs1" "recorded s1 s2 evs2"
  shows "recorded s s2 (evs1 @ evs2)"
  unfolding recorded_def
proof (intro conjI allI impI)
  fix k v assume kv: "(k, v) \<in> set (activeExperiments s2)"
  from assms(2) kv have "(k, v) \<in> set (activeExperiments s1) \<or>
        (v \<and> k \<in> set (forcedIds evs2) \<and> k \<in> set (addedIds evs2))"
    unfolding recorded_def by blast
  moreover have "(k, v) \<in> set (activeExperiments s1) \<Longrightarrow>
      (k, v) \<in> set (activeExperiments s) \<or>
        (v \<and> k \<in> set (forcedIds evs1) \<and> k \<in> set (addedIds evs1))"
    using assms(1) unfolding recorded_def by blast
  ultimately show "(k, v) \<in> set (activeExperiments s) \<or>
        (v \<and> k \<in> set (forcedIds (evs1 @ evs2)) \<and> k \<in> set (addedIds (evs1 @ evs2)))"
    by (auto simp: forcedIds_append addedIds_append)
next
  show "set (Object_keys (activeExperiments s)) \<subseteq> set (Object_keys (activeExperiments s2))"
    using assms unfolding recorded_def by blast
next
  fix k assume "map_of (activeExperiments s) k = Some True"
  then show "map_of (activeExperiments s2) k = Some True"
    using assms unfolding recorded_def by blast
qed

lemma recorded_set:
  assumes "activeExperiments s1 = assignProperty eid True (activeExperiments s)"
  shows "recorded s s1 [AddIdCall eid, ForceCall name eid]"
proof (cases "eid = ''__proto__''")
  case True
  with assms have "activeExperiments s1 = activeExperiments s"
    by (simp add: assignProperty_def)
  then show ?thesis by (simp add: recorded_def)
next
  case False
  with assms have a: "activeExperiments s1 = setProperty eid True (activeExperiments s)"
    by (simp add: assignProperty_def)
  show ?thesis
    unfolding recorded_def a
  proof (intro conjI allI impI)
    fix k v assume "(k, v) \<in> set (setProperty eid True (activeExperiments s))"
    from in_setProperty[OF this]
    show "(k, v) \<in> set (activeExperiments s) \<or>
          (v \<and> k \<in> set (forcedIds [AddIdCall eid, ForceCall name eid]) \<and>
           k \<in> set (addedIds [AddIdCall eid, ForceCall name eid]))"
      by auto
  next
    show "set (Object_keys (activeExperiments s))
          \<subseteq> set (Object_keys (setProperty eid True (activeExperiments s)))"
      by (simp add: set_keys_setProperty subset_insertI)
  next
    fix k assume "map_of (activeExperiments s) k = Some True"
    then show "map_of (setProperty eid True (activeExperiments s)) k = Some True"
      by (simp add: map_of_setProperty)
  qed
qed

lemma effect_trans:
  assumes "effect h r1 evs1" "fst r1 = Inr v" "effect (snd r1) r2 evs2"
  shows "effect h r2 (evs1 @ evs2)"
  using assms logged_trans[of h r1 evs1 v r2 evs2]
    recorded_trans[of "singleton h" "singleton (snd r1)" evs1 "singleton (snd r2)" evs2]
  unfolding effect_def by simp

lemma maybeSelectExperiment_singleton [simp]:
  "singleton (snd (maybeSelectExperiment X bs n h)) = singleton h"
  by (simp add: maybeSelectExperiment_def Let_def split: prod.splits sum.splits)

lemma maybeSelectExperiment_element [simp]:
  "element (snd (maybeSelectExperiment X bs n h)) = element h"
  by (simp add: maybeSelectExperiment_def Let_def split: prod.splits sum.splits)

lemma maybeSelectExperiment_logged:
  "\<exists>evs. logged h (maybeSelectExperiment X bs n h) (SelectCall n bs # evs) \<and>
         forcedIds evs = [] \<and> addedIds evs = []"
proof -
  let ?m = "[(n, \<lparr>isTrafficEligible = (\<lambda>w. True), branches = bs\<rparr>)]"
  obtain r1 w1 where r: "randomlySelectUnsetExperiments X (win h) ?m = (r1, w1)"
    by (cases "randomlySelectUnsetExperiments X (win h) ?m")
  show ?thesis
  proof (cases r1)
    case (Inl e)
    with r have "logged h (maybeSelectExperiment X bs n h) (SelectCall n bs # [Raised e])"
      by (auto simp: maybeSelectExperiment_def logged_def)
    then show ?thesis by (intro exI[of _ "[Raised e]"]) simp
  next
    case (Inr u)
    show ?thesis
    proof (cases "getExperimentBranch X w1 n")
      case (Inl e)
      with r Inr
      have "logged h (maybeSelectExperiment X bs n h) (SelectCall n bs # [BranchCall n, Raised e])"
        by (auto simp: maybeSelectExperiment_def logged_def)
      then show ?thesis by (intro exI[of _ "[BranchCall n, Raised e]"]) simp
    next
      case (Inr b)
      with r \<open>r1 = Inr u\<close>
      have "logged h (maybeSelectExperiment X bs n h) (SelectCall n bs # [BranchCall n])"
        by (auto simp: maybeSelectExperiment_def logged_def)
      then show ?thesis by (intro exI[of _ "[BranchCall n]"]) simp
    qed
  qed
qed

lemma effect_maybeSelectExperiment:
  "\<exists>evs. effect h (maybeSelectExperiment X bs n h) (SelectCall n bs # evs)"
  using maybeSelectExperiment_logged[of h X bs n]
  by (auto simp: effect_def recorded_refl)

lemma unconditioned_branches:
  "those [UNCONDITIONED ''FF_CANONICAL_CTL'', UNCONDITIONED ''FF_CANONICAL_EXP'']
   = Some [''21061145'', ''21061146'']"
  by (simp add: UNCONDITIONED_def readId_def readProperty_def
        DOUBLECLICK_UNCONDITIONED_EXPERIMENTS_def)

lemma unconditionedSelection_eq:
  "unconditionedSelection X h =
     (case maybeSelectExperiment X (Some [''21061145'', ''21061146''])
             DOUBLECLICK_UNCONDITIONED_EXPERIMENT_NAME h of
        (Inl e, h1) \<Rightarrow> (Inl e, h1)
      | (Inr b, h1) \<Rightarrow>
          if truthy b
          then (Inr Undefined,
                forceAndRecord X DOUBLECLICK_UNCONDITIONED_EXPERIMENT_NAME (propertyKey b) h1)
          else (Inr Undefined, h1))"
  unfolding unconditionedSelection_def unconditioned_branches forceAndRecord_def
  by (simp add: truthy_def propertyKey_def split: prod.splits sum.splits option.splits)

lemma selectCallback_eq:
  "selectCallback X ex h =
     (if diversionCriteria ex () then
        (case (if truthy (forceExperimentId ex) then (Inr (forceExperimentId ex), h)
               else maybeSelectExperiment X (experimentBranchIds ex) (experimentName ex) h) of
           (Inl e, h1) \<Rightarrow> (Inl e, h1)
         | (Inr b, h1) \<Rightarrow>
             if truthy b
             then (Inr Undefined,
                   forceAndRecord X DOUBLECLICK_A4A_EXPERIMENT_NAME (propertyKey b) h1)
             else (Inr Undefined, h1))
      else (Inr Undefined, h))"
  unfolding selectCallback_def forceAndRecord_def
  by (simp add: truthy_def propertyKey_def split: prod.splits sum.splits option.splits)

lemma effect_forceAndRecord:
  "effect h (Inr v, forceAndRecord X name eid h) [AddIdCall eid, ForceCall name eid]"
  unfolding effect_def
  by (simp add: logged_def forceAndRecord_def recorded_set)

lemma effect_skip: "effect h (Inr v, h) []"
  by (simp add: effect_def logged_def recorded_refl)

lemma effect_retype: "effect h (r, h1) evs \<Longrightarrow> r = Inl e \<Longrightarrow> effect h (Inl e, h1) evs"
  by (simp add: effect_def logged_def)

lemma effect_Inr: "effect h (Inr a, h1) evs \<Longrightarrow> effect h (Inr b, h1) evs"
  by (simp add: effect_def logged_def)

lemma effect_then_force:
  fixes r :: "js_error + string option"
  assumes "effect h (r, h1) evs"
  shows "\<exists>evs2. effect h
           (case (r, h1) of
              (Inl e, h1) \<Rightarrow> (Inl e, h1)
            | (Inr b, h1) \<Rightarrow>
                if truthy b
                then (Inr Undefined, forceAndRecord X name (propertyKey b) h1)
                else (Inr Undefined, h1))
           (evs @ evs2)"
proof (cases r)
  case (Inl e)
  with assms have "effect h (Inl e :: js_error + js_value, h1) (evs @ [])"
    by (simp add: effect_retype)
  with Inl show ?thesis by (intro exI[of _ "[]"]) simp
next
  case (Inr b)
  show ?thesis
  proof (cases "truthy b")
    case True
    have "effect h (Inr Undefined :: js_error + js_value,
                    forceAndRecord X name (propertyKey b) h1)
            (evs @ [AddIdCall (propertyKey b), ForceCall name (propertyKey b)])"
      using effect_trans[of h "(r, h1)" evs "b"
              "(Inr Undefined, forceAndRecord X name (propertyKey b) h1)"
              "[AddIdCall (propertyKey b), ForceCall name (propertyKey b)]"]
            assms Inr effect_forceAndRecord[of h1 Undefined X name "propertyKey b"]
      by simp
    with Inr True show ?thesis
      by (intro exI[of _ "[AddIdCall (propertyKey b), ForceCall name (propertyKey b)]"]) simp
  next
    case False
    from assms Inr have "effect h (Inr Undefined :: js_error + js_value, h1) (evs @ [])"
      using effect_Inr by fastforce
    with Inr False show ?thesis by (intro exI[of _ "[]"]) simp
  qed
qed

lemma effect_unconditionedSelection:
  "\<exists>evs. effect h (unconditionedSelection X h)
     (SelectCall DOUBLECLICK_UNCONDITIONED_EXPERIMENT_NAME (Some [''21061145'', ''21061146''])
        # evs)"
proof -
  let ?n = DOUBLECLICK_UNCONDITIONED_EXPERIMENT_NAME
  let ?bs = "Some [''21061145'', ''21061146'']"
  obtain evs where e: "effect h (maybeSelectExperiment X ?bs ?n h) (SelectCall ?n ?bs # evs)"
    using effect_maybeSelectExperiment by blast
  obtain r h1 where m: "maybeSelectExperiment X ?bs ?n h = (r, h1)"
    by (cases "maybeSelectExperiment X ?bs ?n h")
  from effect_then_force[of h r h1 "SelectCall ?n ?bs # evs" X ?n] e m
  obtain evs2 where "effect h (unconditionedSelection X h) ((SelectCall ?n ?bs # evs) @ evs2)"
    unfolding unconditionedSelection_eq by auto
  then show ?thesis by (intro exI[of _ "evs @ evs2"]) simp
qed

lemma effect_selectCallback: "\<exists>evs. effect h (selectCallback X ex h) evs"
proof (cases "diversionCriteria ex ()")
  case False
  then show ?thesis using effect_skip[of h Undefined] by (auto simp: selectCallback_eq)
next
  case True
  let ?n = DOUBLECLICK_A4A_EXPERIMENT_NAME
  show ?thesis
  proof (cases "truthy (forceExperimentId ex)")
    case t: True
    have "effect h (Inr (forceExperimentId ex) :: js_error + string option, h) []"
      by (rule effect_skip)
    from effect_then_force[OF this, of X ?n] True t show ?thesis
      by (auto simp: selectCallback_eq)
  next
    case f: False
    obtain evs where e: "effect h (maybeSelectExperiment X (experimentBranchIds ex)
        (experimentName ex) h) (SelectCall (experimentName ex) (experimentBranchIds ex) # evs)"
      using effect_maybeSelectExperiment by blast
    obtain r h1 where m: "maybeSelectExperiment X (experimentBranchIds ex)
        (experimentName ex) h = (r, h1)"
      by (cases "maybeSelectExperiment X (experimentBranchIds ex) (experimentName ex) h")
    from effect_then_force[of h r h1 _ X ?n] e m True f show ?thesis
      by (auto simp: selectCallback_eq)
  qed
qed

lemma effect_forEach_experiments: "\<exists>evs. effect h (forEach_experiments X exs h) evs"
proof (induction exs arbitrary: h)
  case Nil
  show ?case using effect_skip[of h Undefined] by auto
next
  case (Cons ex exs)
  obtain evs1 where e1: "effect h (selectCallback X ex h) evs1"
    using effect_selectCallback by blast
  obtain r h1 where c: "selectCallback X ex h = (r, h1)" by (cases "selectCallback X ex h")
  show ?case
  proof (cases r)
    case (Inl e)
    with c e1 show ?thesis by auto
  next
    case (Inr v)
    obtain evs2 where e2: "effect h1 (forEach_experiments X exs h1) evs2"
      using Cons.IH by blast
    from effect_trans[of h "selectCallback X ex h" evs1 v "forEach_experiments X exs h1" evs2]
      e1 e2 c Inr
    have "effect h (forEach_experiments X exs h1) (evs1 @ evs2)" by simp
    with c Inr show ?thesis by auto
  qed
qed

lemma effect_selectA4aExperiments:
  "\<exists>evs. effect h (selectA4aExperiments X u h)
     (SelectCall DOUBLECLICK_UNCONDITIONED_EXPERIMENT_NAME (Some [''21061145'', ''21061146''])
        # evs)"
proof -
  let ?c = "SelectCall DOUBLECLICK_UNCONDITIONED_EXPERIMENT_NAME
              (Some [''21061145'', ''21061146''])"
  obtain evs1 where e1: "effect h (unconditionedSelection X h) (?c # evs1)"
    using effect_unconditionedSelection by blast
  obtain r h1 where c: "unconditionedSelection X h = (r, h1)"
    by (cases "unconditionedSelection X h")
  show ?thesis
  proof (cases r)
    case (Inl e)
    with c e1 show ?thesis by (auto simp: selectA4aExperiments_def)
  next
    case (Inr v)
    let ?exs = "experiments (MANUAL_EXPERIMENT_ID X)
               (isFastFetchEligible u (element h1))
               (isCdnProxy X (win h1))
               (extractUrlExperimentId X (win h1) (element h1))
               (localDev (getMode X (win h1)) \<or> test (getMode X (win h1)))
               (hasAttribute (element h1) BETA_ATTRIBUTE)"
    obtain evs2 where e2: "effect h1 (forEach_experiments X ?exs h1) evs2"
      using effect_forEach_experiments by blast
    from effect_trans[of h "unconditionedSelection X h" "?c # evs1" v
           "forEach_experiments X ?exs h1" evs2] e1 e2 c Inr
    have "effect h (forEach_experiments X ?exs h1) (?c # evs1 @ evs2)" by simp
    with c Inr show ?thesis by (auto simp: selectA4aExperiments_def)
  qed
qed

lemma fastFetchIneligibleExperiments_eq:
  "fastFetchIneligibleExperiments = [Some ''21060727'', Some ''2092614'', Some ''21060932'', None]"
  by (simp add: fastFetchIneligibleExperiments_def FEATURE_def readId_def readProperty_def
        DOUBLECLICK_EXPERIMENT_FEATURE_def objectPrototypeMembers_def)

lemma fastFetchPredicates_keys:
  "map fst (fastFetchPredicates X u h) = [''undefined'']"
  by (simp add: fastFetchPredicates_def FEATURE_def readId_def readProperty_def
        DOUBLECLICK_EXPERIMENT_FEATURE_def objectPrototypeMembers_def propertyKey_def)

lemma readProperty_throwing:
  assumes "k \<in> set throwingMembers"
  shows "readProperty (fastFetchPredicates X u h) k = Inherited k"
proof -
  from assms have "k \<notin> set (map fst (fastFetchPredicates X u h))"
    unfolding fastFetchPredicates_keys by (auto simp: throwingMembers_def)
  then have "map_of (fastFetchPredicates X u h) k = None"
    by (simp add: map_of_eq_None_iff)
  moreover from assms have "k \<in> set objectPrototypeMembers"
    by (auto simp: throwingMembers_def objectPrototypeMembers_def)
  ultimately show ?thesis by (simp add: readProperty_def)
qed

lemma fastFetchCallback_throwing:
  "k \<in> set throwingMembers \<Longrightarrow> fastFetchCallback X u h k = Inl TypeError"
  by (auto simp: fastFetchCallback_def readProperty_throwing callInherited_def
        fastFetchIneligibleExperiments_eq throwingMembers_def)

lemma fastFetchCallback_returns:
  assumes "k \<notin> set throwingMembers"
  shows "\<exists>v. fastFetchCallback X u h k = Inr v"
proof (cases "readProperty (fastFetchPredicates X u h) k")
  case (Own predicate)
  then show ?thesis by (simp add: fastFetchCallback_def)
next
  case (Inherited name)
  then have "name = k"
    by (auto simp: readProperty_def split: option.splits if_splits)
  with assms Inherited show ?thesis
    by (simp add: fastFetchCallback_def callInherited_def)
next
  case Missing
  then show ?thesis by (simp add: fastFetchCallback_def)
qed

lemma forEach_fastFetchCallback:
  "forEach_pure ks (fastFetchCallback X u h) =
     (if list_all (\<lambda>k. k \<notin> set throwingMembers) ks then Inr Undefined else Inl TypeError)"
proof (induction ks)
  case Nil
  show ?case by simp
next
  case (Cons k ks)
  show ?case
  proof (cases "k \<in> set throwingMembers")
    case True
    then show ?thesis by (simp add: fastFetchCallback_throwing)
  next
    case False
    from fastFetchCallback_returns[OF this, of X u h]
    obtain v where "fastFetchCallback X u h k = Inr v" by blast
    with False Cons show ?thesis by simp
  qed
qed

lemma shouldUseFastFetch_eq:
  "shouldUseFastFetch X u h =
     (if noThrowingKey (activeExperiments (singleton h))
      then (Inr (Boolean (isFastFetchEligible u (element h) \<and> isCdnProxy X (win h))), h)
      else (Inl TypeError, h))"
  by (simp add: shouldUseFastFetch_def forEach_fastFetchCallback noThrowingKey_def)

lemma shouldUseFastFetch_heap [simp]: "snd (shouldUseFastFetch X u h) = h"
  by (simp add: shouldUseFastFetch_eq)

lemma effect_same_heap: "effect h (Inr a, h1) evs \<Longrightarrow> effect h (r, h1) evs"
  by (simp add: effect_def logged_def)

lemma effect_isA4aEnabled:
  "\<exists>evs. effect h (isA4aEnabled X u h)
     (SelectCall DOUBLECLICK_UNCONDITIONED_EXPERIMENT_NAME (Some [''21061145'', ''21061146''])
        # evs)"
proof -
  let ?c = "SelectCall DOUBLECLICK_UNCONDITIONED_EXPERIMENT_NAME
              (Some [''21061145'', ''21061146''])"
  obtain evs where e: "effect h (selectA4aExperiments X u h) (?c # evs)"
    using effect_selectA4aExperiments by blast
  obtain r h1 where c: "selectA4aExperiments X u h = (r, h1)"
    by (cases "selectA4aExperiments X u h")
  show ?thesis
  proof (cases r)
    case (Inl e)
    with c e show ?thesis by (auto simp: isA4aEnabled_def)
  next
    case (Inr v)
    have "shouldUseFastFetch X u h1 = (fst (shouldUseFastFetch X u h1), h1)"
      by (simp add: prod_eq_iff)
    moreover from e c Inr
    have "effect h (fst (shouldUseFastFetch X u h1), h1) (?c # evs)"
      using effect_same_heap by fastforce
    ultimately show ?thesis using c Inr by (auto simp: isA4aEnabled_def)
  qed
qed

lemma effect_newCalls: "effect h r evs \<Longrightarrow> newCalls h (snd r) = evs"
  by (simp add: effect_def logged_def newCalls_def)

lemma selectCallback_skip:
  "\<not> diversionCriteria ex () \<Longrightarrow> selectCallback X ex h = (Inr Undefined, h)"
  by (simp add: selectCallback_eq)

lemma selectCallback_value: "fst (selectCallback X ex h) = Inr v \<Longrightarrow> v = Undefined"
  by (auto simp: selectCallback_eq split: if_splits prod.splits sum.splits)

lemma forEach_no_match:
  "filter (\<lambda>ex. diversionCriteria ex ()) exs = [] \<Longrightarrow>
   forEach_experiments X exs h = (Inr Undefined, h)"
  by (induction exs) (auto simp: selectCallback_skip split: if_splits)

lemma forEach_firstMatch:
  "length (filter (\<lambda>ex. diversionCriteria ex ()) exs) \<le> 1 \<Longrightarrow>
   forEach_experiments X exs h = firstMatch X exs h"
proof (induction exs)
  case Nil
  show ?case by simp
next
  case (Cons ex exs)
  show ?case
  proof (cases "diversionCriteria ex ()")
    case False
    with Cons show ?thesis by (simp add: selectCallback_skip)
  next
    case True
    with Cons.prems have none: "filter (\<lambda>ex. diversionCriteria ex ()) exs = []" by simp
    obtain r h1 where c: "selectCallback X ex h = (r, h1)" by (cases "selectCallback X ex h")
    show ?thesis
    proof (cases r)
      case (Inl e)
      with c True show ?thesis by simp
    next
      case (Inr v)
      with c selectCallback_value[of X ex h v] have "v = Undefined" by simp
      with c Inr True none show ?thesis by (simp add: forEach_no_match)
    qed
  qed
qed

lemma experiments_at_most_one:
  "length (filter (\<lambda>ex. diversionCriteria ex ())
     (experiments manual eligible cdn url dev beta)) \<le> 1"
  by (cases eligible; cases cdn; cases beta; cases dev;
      cases "looseEqNumber url (- 1)"; cases "looseEqUndefined url")
     (simp_all add: experiments_def)

section \<open>The CDN-proxy regular expression\<close>

text \<open>
  The matcher accepts exactly the strings of the regular expression: \<open>https://\<close>, then
  nothing or a non-empty label of the characters \<open>[a-zA-Z0-9_-]\<close> with a dot after it, then
  \<open>cdn.ampproject.org\<close>, then the end of the string or a \<open>/\<close> and anything after it.
\<close>

lemma stripPrefix_iff: "(stripPrefix p s = Some t) = (s = p @ t)"
  by (induction p s rule: stripPrefix.induct) auto

lemma cdnHostAndRest_iff:
  "cdnHostAndRest s =
     (\<exists>rest. s = ''cdn.ampproject.org'' @ rest \<and> (rest = [] \<or> hd rest = CHR ''/''))"
proof (cases "stripPrefix ''cdn.ampproject.org'' s")
  case None
  then have "\<And>t. s \<noteq> ''cdn.ampproject.org'' @ t"
    using stripPrefix_iff[of "''cdn.ampproject.org''" s] by auto
  with None show ?thesis by (auto simp: cdnHostAndRest_def)
next
  case (Some t)
  then have "s = ''cdn.ampproject.org'' @ t" by (simp add: stripPrefix_iff)
  with Some show ?thesis by (cases t) (auto simp: cdnHostAndRest_def)
qed

lemma not_labelChar_dot: "\<not> labelChar CHR ''.''"
  by (simp add: labelChar_def)

lemma label_split:
  "(takeWhile labelChar r \<noteq> [] \<and>
    (case dropWhile labelChar r of [] \<Rightarrow> False | c # r' \<Rightarrow> c = CHR ''.'' \<and> Q r')) =
   (\<exists>l r'. l \<noteq> [] \<and> (\<forall>c \<in> set l. labelChar c) \<and> r = l @ CHR ''.'' # r' \<and> Q r')"
proof
  assume a: "takeWhile labelChar r \<noteq> [] \<and>
    (case dropWhile labelChar r of [] \<Rightarrow> False | c # r' \<Rightarrow> c = CHR ''.'' \<and> Q r')"
  then obtain r' where d: "dropWhile labelChar r = CHR ''.'' # r'" and q: "Q r'"
    by (auto split: list.splits)
  have "r = takeWhile labelChar r @ dropWhile labelChar r" by simp
  with d have "r = takeWhile labelChar r @ CHR ''.'' # r'" by simp
  moreover have "\<forall>c \<in> set (takeWhile labelChar r). labelChar c"
    by (auto dest: set_takeWhileD)
  ultimately show "\<exists>l r'. l \<noteq> [] \<and> (\<forall>c \<in> set l. labelChar c) \<and> r = l @ CHR ''.'' # r' \<and> Q r'"
    using a q by blast
next
  assume "\<exists>l r'. l \<noteq> [] \<and> (\<forall>c \<in> set l. labelChar c) \<and> r = l @ CHR ''.'' # r' \<and> Q r'"
  then obtain l r' where l: "l \<noteq> []" "\<forall>c \<in> set l. labelChar c"
    and r: "r = l @ CHR ''.'' # r'" and q: "Q r'" by blast
  from l(2) r have "takeWhile labelChar r = l"
    by (simp add: takeWhile_tail not_labelChar_dot)
  moreover from l(2) r have "dropWhile labelChar r = CHR ''.'' # r'"
    by (simp add: dropWhile_append2 not_labelChar_dot)
  ultimately show "takeWhile labelChar r \<noteq> [] \<and>
    (case dropWhile labelChar r of [] \<Rightarrow> False | c # r' \<Rightarrow> c = CHR ''.'' \<and> Q r')"
    using l(1) q by simp
qed

lemma googleCdnProxyRegex_test_iff:
  "googleCdnProxyRegex_test s =
     (\<exists>label rest.
        s = ''https://'' @ label @ ''cdn.ampproject.org'' @ rest \<and>
        (label = [] \<or>
         (\<exists>l. l \<noteq> [] \<and> (\<forall>c \<in> set l. labelChar c) \<and> label = l @ ''.'')) \<and>
        (rest = [] \<or> hd rest = CHR ''/''))"
proof (cases "stripPrefix ''https://'' s")
  case None
  then have "\<And>t. s \<noteq> ''https://'' @ t"
    using stripPrefix_iff[of "''https://''" s] by auto
  then have "\<And>label rest. s \<noteq> ''https://'' @ label @ ''cdn.ampproject.org'' @ rest"
    by blast
  with None show ?thesis by (simp add: googleCdnProxyRegex_test_def)
next
  case (Some r)
  then have s: "s = ''https://'' @ r" by (simp add: stripPrefix_iff)
  have "googleCdnProxyRegex_test s =
     ((\<exists>l r'. l \<noteq> [] \<and> (\<forall>c \<in> set l. labelChar c) \<and> r = l @ CHR ''.'' # r'
          \<and> cdnHostAndRest r') \<or> cdnHostAndRest r)"
    using Some label_split[of r cdnHostAndRest]
    by (simp add: googleCdnProxyRegex_test_def)
  also have "\<dots> = (\<exists>label rest.
        r = label @ ''cdn.ampproject.org'' @ rest \<and>
        (label = [] \<or>
         (\<exists>l. l \<noteq> [] \<and> (\<forall>c \<in> set l. labelChar c) \<and> label = l @ ''.'')) \<and>
        (rest = [] \<or> hd rest = CHR ''/''))"
  proof
    assume "(\<exists>l r'. l \<noteq> [] \<and> (\<forall>c \<in> set l. labelChar c) \<and> r = l @ CHR ''.'' # r'
          \<and> cdnHostAndRest r') \<or> cdnHostAndRest r"
    then show "\<exists>label rest.
        r = label @ ''cdn.ampproject.org'' @ rest \<and>
        (label = [] \<or>
         (\<exists>l. l \<noteq> [] \<and> (\<forall>c \<in> set l. labelChar c) \<and> label = l @ ''.'')) \<and>
        (rest = [] \<or> hd rest = CHR ''/'')"
    proof
      assume "\<exists>l r'. l \<noteq> [] \<and> (\<forall>c \<in> set l. labelChar c) \<and> r = l @ CHR ''.'' # r'
          \<and> cdnHostAndRest r'"
      then obtain l r' rest where l: "l \<noteq> []" "\<forall>c \<in> set l. labelChar c"
        and r: "r = l @ CHR ''.'' # r'" and h: "r' = ''cdn.ampproject.org'' @ rest"
        and t: "rest = [] \<or> hd rest = CHR ''/''"
        unfolding cdnHostAndRest_iff by blast
      from r h have "r = (l @ ''.'') @ ''cdn.ampproject.org'' @ rest" by simp
      with l t show ?thesis by blast
    next
      assume "cdnHostAndRest r"
      then obtain rest where "r = [] @ ''cdn.ampproject.org'' @ rest"
        and "rest = [] \<or> hd rest = CHR ''/''"
        unfolding cdnHostAndRest_iff by auto
      then show ?thesis by blast
    qed
  next
    assume "\<exists>label rest.
        r = label @ ''cdn.ampproject.org'' @ rest \<and>
        (label = [] \<or>
         (\<exists>l. l \<noteq> [] \<and> (\<forall>c \<in> set l. labelChar c) \<and> label = l @ ''.'')) \<and>
        (rest = [] \<or> hd rest = CHR ''/'')"
    then obtain label rest where r: "r = label @ ''cdn.ampproject.org'' @ rest"
      and lab: "label = [] \<or>
         (\<exists>l. l \<noteq> [] \<and> (\<forall>c \<in> set l. labelChar c) \<and> label = l @ ''.'')"
      and t: "rest = [] \<or> hd rest = CHR ''/''" by blast
    have c: "cdnHostAndRest (''cdn.ampproject.org'' @ rest)"
      unfolding cdnHostAndRest_iff using t by blast
    from lab show "(\<exists>l r'. l \<noteq> [] \<and> (\<forall>c \<in> set l. labelChar c) \<and> r = l @ CHR ''.'' # r'
          \<and> cdnHostAndRest r') \<or> cdnHostAndRest r"
    proof
      assume "label = []"
      with r c show ?thesis by simp
    next
      assume "\<exists>l. l \<noteq> [] \<and> (\<forall>c \<in> set l. labelChar c) \<and> label = l @ ''.''"
      then obtain l where l: "l \<noteq> []" "\<forall>c \<in> set l. labelChar c" "label = l @ ''.''"
        by blast
      with r have "r = l @ CHR ''.'' # (''cdn.ampproject.org'' @ rest)" by simp
      with l c show ?thesis by blast
    qed
  qed
  finally show ?thesis using s by simp
qed

lemma googleCdnProxyRegex_test_examples:
  "googleCdnProxyRegex_test ''https://cdn.ampproject.org''"
  "googleCdnProxyRegex_test ''https://www-example-com.cdn.ampproject.org''"
  "googleCdnProxyRegex_test ''https://cdn.ampproject.org/c/s/example.com''"
  "\<not> googleCdnProxyRegex_test ''http://cdn.ampproject.org''"
  "\<not> googleCdnProxyRegex_test ''https://cdn.ampproject.org.example.com''"
  "\<not> googleCdnProxyRegex_test ''https://a.b.cdn.ampproject.org''"
  "\<not> googleCdnProxyRegex_test ''https://example.com''"
  by code_simp+

section \<open>The fast-path decision\<close>

text \<open>
  Claim C1: when the flag map contains an id of the fast-fetch-ineligible set,
  \<open>shouldUseFastFetch\<close> returns false. The code does not: on the CDN proxy, for an eligible
  element and with the holdback id \<open>2092614\<close> in the map, the callback of the loop over the
  keys returns false for that id, and \<open>shouldUseFastFetch\<close> still returns true. A call of
  \<open>doubleclickIsA4AEnabled\<close> that selects the holdback branch \<open>2092614\<close> itself returns true
  as well.
\<close>

theorem shouldUseFastFetch_ignores_holdback:
  "fst (shouldUseFastFetch test_env False
          (test_heap (test_win ''https://cdn.ampproject.org'' None False 1)
             (test_element [] []) [(''2092614'', True)])) = Inr (Boolean True)
   \<and> fastFetchCallback test_env False
          (test_heap (test_win ''https://cdn.ampproject.org'' None False 1)
             (test_element [] []) [(''2092614'', True)]) ''2092614'' = Inr (Boolean False)
   \<and> fst (doubleclickIsA4AEnabled test_env False
          (test_heap (test_win ''https://cdn.ampproject.org'' None False 1)
             (test_element [] []) [])) = Inr (Boolean True)
   \<and> activeExperiments (singleton (snd (doubleclickIsA4AEnabled test_env False
          (test_heap (test_win ''https://cdn.ampproject.org'' None False 1)
             (test_element [] []) []))))
       = [(''21061146'', True), (''2092614'', True)]"
  by code_simp

text \<open>
  With \<open>useRemoteHtml\<close> set, an element whose \<open>rtc-config\<close> attribute is present and empty
  is not eligible: \<open>getAttribute\<close> returns the empty string, which is falsy. Read by the
  presence of the attribute, the element would be eligible. And the result does depend on
  the flag map: for the same window and element the method returns true with the key
  \<open>2092614\<close> in the map and throws a \<open>TypeError\<close> with the key \<open>__defineGetter__\<close>, because
  \<open>fastFetchPredicates['__defineGetter__']\<close> is the member of \<open>Object.prototype\<close> and is
  called without a getter.
\<close>

theorem shouldUseFastFetch_empty_rtc_config_counterexample:
  "fst (shouldUseFastFetch test_env True
          (test_heap (test_win ''https://cdn.ampproject.org'' None False 0)
             (test_element [(''rtc-config'', [])] []) [])) = Inr (Boolean False)
   \<and> eligibleByPresence True (test_element [(''rtc-config'', [])] [])
   \<and> isCdnProxy test_env (test_win ''https://cdn.ampproject.org'' None False 0)
   \<and> fst (shouldUseFastFetch test_env False
          (test_heap (test_win ''https://cdn.ampproject.org'' None False 0)
             (test_element [] []) [(''2092614'', True)])) = Inr (Boolean True)
   \<and> fst (shouldUseFastFetch test_env False
          (test_heap (test_win ''https://cdn.ampproject.org'' None False 0)
             (test_element [] []) [(''__defineGetter__'', True)])) = Inl (JsError ''TypeError'')"
  by code_simp

text \<open>
  Claim C2, amended: when no key of the flag map is \<open>__defineGetter__\<close>,
  \<open>__defineSetter__\<close> or \<open>__proto__\<close>, \<open>shouldUseFastFetch\<close> returns true if and only if
  the element is fast-fetch eligible and the origin of the window matches the CDN-proxy
  regular expression, where eligible means: not (\<open>useRemoteHtml\<close> is set and the
  \<open>rtc-config\<close> attribute is missing or empty), and
  \<open>useSameDomainRenderingUntilDeprecated\<close> is neither in the dataset nor an attribute. It
  changes nothing, and its result is the same for every flag map without such a key.
\<close>

theorem shouldUseFastFetch_decision:
  "noThrowingKey (activeExperiments (singleton h)) \<longrightarrow>
     shouldUseFastFetch X useRemoteHtml h =
       (Inr (Boolean
          (\<not> (useRemoteHtml \<and>
               (getAttribute (element h) ''rtc-config'' = None \<or>
                getAttribute (element h) ''rtc-config'' = Some []))
           \<and> \<not> inDataset ''useSameDomainRenderingUntilDeprecated'' (element h)
           \<and> \<not> hasAttribute (element h) ''useSameDomainRenderingUntilDeprecated''
           \<and> googleCdnProxyRegex_test (location_origin X (win h)))), h)
     \<and> (noThrowingKey (activeExperiments s) \<longrightarrow>
          fst (shouldUseFastFetch X useRemoteHtml (h\<lparr>singleton := s\<rparr>))
            = fst (shouldUseFastFetch X useRemoteHtml h))"
  by (auto simp: shouldUseFastFetch_eq isFastFetchEligible_def isCdnProxy_def truthy_def
           split: option.splits)

theorem shouldUseFastFetch_decision_witness:
  "noThrowingKey [(''2092614'', True)]
   \<and> fst (shouldUseFastFetch test_env True
          (test_heap (test_win ''https://cdn.ampproject.org'' None False 0)
             (test_element [(''rtc-config'', ''{}'')] []) [(''2092614'', True)]))
     = Inr (Boolean True)
   \<and> fst (shouldUseFastFetch test_env True
          ((test_heap (test_win ''https://cdn.ampproject.org'' None False 0)
             (test_element [(''rtc-config'', ''{}'')] []) [(''2092614'', True)])
           \<lparr>singleton := \<lparr>activeExperiments = [(''toString'', True)]\<rparr>\<rparr>))
     = Inr (Boolean True)"
proof -
  have g: "googleCdnProxyRegex_test ''https://cdn.ampproject.org''" by code_simp
  have n: "noThrowingKey [(''2092614'', True)]" by code_simp
  have m: "noThrowingKey [(''toString'', True)]" by code_simp
  from g n m show ?thesis
    using shouldUseFastFetch_decision [where X = test_env and useRemoteHtml = True
      and s = "\<lparr>activeExperiments = [(''toString'', True)]\<rparr>"
      and h = "test_heap (test_win ''https://cdn.ampproject.org'' None False 0)
             (test_element [(''rtc-config'', ''{}'')] []) [(''2092614'', True)]"]
    by (simp add: test_heap_def test_win_def test_element_def test_env_def getAttribute_def
          inDataset_def hasAttribute_def)
qed

section \<open>The conditioned experiment list\<close>

text \<open>
  Claim C3: for every combination of fast-fetch eligibility, CDN-proxy status, URL
  experiment id, dev mode and beta attribute, the list has five entries of which at most
  one has a \<open>diversionCriteria\<close> that evaluates to true; so the \<open>forEach\<close> loop, which
  visits every entry, does what stopping at the first entry whose condition holds does.
\<close>

theorem experiments_first_match_wins:
  "length (experiments manual eligible cdn url dev beta) = 5
   \<and> length (filter (\<lambda>ex. diversionCriteria ex ())
        (experiments manual eligible cdn url dev beta)) \<le> 1
   \<and> forEach_experiments X (experiments manual eligible cdn url dev beta) h
       = firstMatch X (experiments manual eligible cdn url dev beta) h"
  using experiments_at_most_one[of manual eligible cdn url dev beta]
        forEach_firstMatch[of "experiments manual eligible cdn url dev beta" X h]
  by (simp add: experiments_def)

theorem experiments_first_match_wins_witness:
  "length (filter (\<lambda>ex. diversionCriteria ex ())
        (experiments ''117152632'' True True (Some ''2'') False False)) \<le> 1
   \<and> forEach_experiments test_env
        (experiments ''117152632'' True True (Some ''2'') False False)
        (test_heap (test_win ''https://cdn.ampproject.org'' (Some ''2'') False 0)
           (test_element [] []) [])
     = firstMatch test_env
        (experiments ''117152632'' True True (Some ''2'') False False)
        (test_heap (test_win ''https://cdn.ampproject.org'' (Some ''2'') False 0)
           (test_element [] []) [])
   \<and> calls (snd (firstMatch test_env
        (experiments ''117152632'' True True (Some ''2'') False False)
        (test_heap (test_win ''https://cdn.ampproject.org'' (Some ''2'') False 0)
           (test_element [] []) [])))
     = [AddIdCall ''21060727'', ForceCall ''expDoubleclickA4A'' ''21060727'']"
proof -
  have "calls (snd (firstMatch test_env
        (experiments ''117152632'' True True (Some ''2'') False False)
        (test_heap (test_win ''https://cdn.ampproject.org'' (Some ''2'') False 0)
           (test_element [] []) [])))
     = [AddIdCall ''21060727'', ForceCall ''expDoubleclickA4A'' ''21060727'']"
    by code_simp
  then show ?thesis
    using experiments_first_match_wins [of "''117152632''" True True "Some ''2''" False False
      test_env "test_heap (test_win ''https://cdn.ampproject.org'' (Some ''2'') False 0)
           (test_element [] []) []"]
    by simp
qed

section \<open>Selections that succeed\<close>

lemma maybeSelectExperiment_selected:
  assumes "randomlySelectUnsetExperiments X (win h)
             [(n, \<lparr>isTrafficEligible = (\<lambda>w. True), branches = bs\<rparr>)] = (Inr (), w1)"
      and "getExperimentBranch X w1 n = Inr b"
  shows "maybeSelectExperiment X bs n h =
           (Inr b, h\<lparr>win := w1, calls := calls h @ [SelectCall n bs, BranchCall n]\<rparr>)"
  using assms by (simp add: maybeSelectExperiment_def)

lemma effect_getProperty:
  "effect h r evs \<Longrightarrow> getProperty (activeExperiments (singleton h)) k = Some True \<Longrightarrow>
   getProperty (activeExperiments (singleton (snd r))) k = Some True"
  by (simp add: effect_def recorded_def getProperty_def)

section \<open>The unconditioned selection\<close>

lemma unconditioned_selected:
  assumes r: "randomlySelectUnsetExperiments X (win h)
         [(''expUnconditionedDoubleclick'',
           \<lparr>isTrafficEligible = (\<lambda>w. True),
            branches = Some [''21061145'', ''21061146'']\<rparr>)] = (Inr (), w1)"
     and g: "getExperimentBranch X w1 ''expUnconditionedDoubleclick'' = Inr (Some b)"
     and b: "b \<noteq> []"
  shows "\<exists>rest. newCalls h (snd (selectA4aExperiments X useRemoteHtml h)) =
          [SelectCall ''expUnconditionedDoubleclick'' (Some [''21061145'', ''21061146'']),
           BranchCall ''expUnconditionedDoubleclick'',
           AddIdCall b,
           ForceCall ''expUnconditionedDoubleclick'' b] @ rest"
    and "b \<noteq> ''__proto__'' \<Longrightarrow>
         getProperty
           (activeExperiments (singleton (snd (selectA4aExperiments X useRemoteHtml h)))) b
         = Some True"
proof -
  let ?n = "''expUnconditionedDoubleclick''"
  let ?bs = "Some [''21061145'', ''21061146'']"
  let ?h1 = "h\<lparr>win := w1, calls := calls h @ [SelectCall ?n ?bs, BranchCall ?n]\<rparr>"
  let ?h2 = "forceAndRecord X ?n b ?h1"
  have u: "unconditionedSelection X h = (Inr Undefined, ?h2)"
    using maybeSelectExperiment_selected[OF r g] b
    by (simp add: unconditionedSelection_eq DOUBLECLICK_UNCONDITIONED_EXPERIMENT_NAME_def
          truthy_def propertyKey_def)
  let ?exs = "experiments (MANUAL_EXPERIMENT_ID X)
               (isFastFetchEligible useRemoteHtml (element ?h2))
               (isCdnProxy X (win ?h2))
               (extractUrlExperimentId X (win ?h2) (element ?h2))
               (localDev (getMode X (win ?h2)) \<or> test (getMode X (win ?h2)))
               (hasAttribute (element ?h2) BETA_ATTRIBUTE)"
  have s: "selectA4aExperiments X useRemoteHtml h = forEach_experiments X ?exs ?h2"
    using u by (simp add: selectA4aExperiments_def)
  obtain evs where e: "effect ?h2 (forEach_experiments X ?exs ?h2) evs"
    using effect_forEach_experiments by blast
  have c2: "calls ?h2 = calls h @ [SelectCall ?n ?bs, BranchCall ?n, AddIdCall b, ForceCall ?n b]"
    by (simp add: forceAndRecord_def)
  have "calls (snd (forEach_experiments X ?exs ?h2)) = calls ?h2 @ evs"
    using e by (simp add: effect_def logged_def)
  with c2 s have "newCalls h (snd (selectA4aExperiments X useRemoteHtml h)) =
      [SelectCall ?n ?bs, BranchCall ?n, AddIdCall b, ForceCall ?n b] @ evs"
    by (simp add: newCalls_def)
  then show "\<exists>rest. newCalls h (snd (selectA4aExperiments X useRemoteHtml h)) =
          [SelectCall ?n ?bs, BranchCall ?n, AddIdCall b, ForceCall ?n b] @ rest"
    by blast
  assume "b \<noteq> ''__proto__''"
  then have "getProperty (activeExperiments (singleton ?h2)) b = Some True"
    by (simp add: forceAndRecord_def getProperty_def map_of_setProperty assignProperty_def)
  from effect_getProperty[OF e this] s
  show "getProperty
          (activeExperiments (singleton (snd (selectA4aExperiments X useRemoteHtml h)))) b
        = Some True"
    by simp
qed

text \<open>
  Claim C4: every call of \<open>selectA4aExperiments\<close> begins with the unconditioned selection,
  whatever the element, the flag, the mode and the origin are: the first call it makes is
  the random selection between \<open>21061145\<close> and \<open>21061146\<close> under the name
  \<open>expUnconditionedDoubleclick\<close>. When that selection yields a branch, the branch is
  added to the element and forced under that name before anything of the conditioned list
  is done, and the flag map holds it with the value \<open>true\<close> when the call ends. The last
  part leaves out a branch called \<open>__proto__\<close>, a key that an assignment does not give to
  a plain object; the two branches of the selection are not concerned.
\<close>

theorem unconditioned_selection_first:
  "(\<exists>rest. newCalls h (snd (selectA4aExperiments X useRemoteHtml h)) =
      SelectCall ''expUnconditionedDoubleclick'' (Some [''21061145'', ''21061146'']) # rest)
   \<and> (randomlySelectUnsetExperiments X (win h)
         [(''expUnconditionedDoubleclick'',
           \<lparr>isTrafficEligible = (\<lambda>w. True),
            branches = Some [''21061145'', ''21061146'']\<rparr>)] = (Inr (), w1) \<longrightarrow>
       getExperimentBranch X w1 ''expUnconditionedDoubleclick'' = Inr (Some b) \<longrightarrow>
       b \<noteq> [] \<longrightarrow>
       (\<exists>rest. newCalls h (snd (selectA4aExperiments X useRemoteHtml h)) =
          [SelectCall ''expUnconditionedDoubleclick'' (Some [''21061145'', ''21061146'']),
           BranchCall ''expUnconditionedDoubleclick'',
           AddIdCall b,
           ForceCall ''expUnconditionedDoubleclick'' b] @ rest)
       \<and> (b \<noteq> ''__proto__'' \<longrightarrow>
            getProperty
              (activeExperiments (singleton (snd (selectA4aExperiments X useRemoteHtml h)))) b
            = Some True))"
proof (intro conjI impI)
  show "\<exists>rest. newCalls h (snd (selectA4aExperiments X useRemoteHtml h)) =
      SelectCall ''expUnconditionedDoubleclick'' (Some [''21061145'', ''21061146'']) # rest"
    using effect_selectA4aExperiments[of h X useRemoteHtml] effect_newCalls
    unfolding DOUBLECLICK_UNCONDITIONED_EXPERIMENT_NAME_def by blast
qed (rule unconditioned_selected; assumption)+

theorem unconditioned_selection_first_witness:
  "(\<exists>rest. newCalls
       (test_heap (test_win ''https://example.com'' None False 1)
          (test_element [(''useSameDomainRenderingUntilDeprecated'', ''1'')] []) [])
       (snd (selectA4aExperiments test_env True
          (test_heap (test_win ''https://example.com'' None False 1)
             (test_element [(''useSameDomainRenderingUntilDeprecated'', ''1'')] []) []))) =
      [SelectCall ''expUnconditionedDoubleclick'' (Some [''21061145'', ''21061146'']),
       BranchCall ''expUnconditionedDoubleclick'',
       AddIdCall ''21061146'',
       ForceCall ''expUnconditionedDoubleclick'' ''21061146''] @ rest)
   \<and> getProperty
        (activeExperiments (singleton (snd (selectA4aExperiments test_env True
          (test_heap (test_win ''https://example.com'' None False 1)
             (test_element [(''useSameDomainRenderingUntilDeprecated'', ''1'')] []) [])))))
        ''21061146'' = Some True"
proof -
  let ?w1 = "(test_win ''https://example.com'' None False 1)
               \<lparr>tw_experimentBranches :=
                  [(''expUnconditionedDoubleclick'', Some ''21061146'')]\<rparr>"
  have r: "randomlySelectUnsetExperiments test_env
             (win (test_heap (test_win ''https://example.com'' None False 1)
                (test_element [(''useSameDomainRenderingUntilDeprecated'', ''1'')] []) []))
             [(''expUnconditionedDoubleclick'',
               \<lparr>isTrafficEligible = (\<lambda>w. True),
                branches = Some [''21061145'', ''21061146'']\<rparr>)] = (Inr (), ?w1)"
    by code_simp
  have g: "getExperimentBranch test_env ?w1 ''expUnconditionedDoubleclick''
             = Inr (Some ''21061146'')"
    by code_simp
  have b: "''21061146'' \<noteq> []" "''21061146'' \<noteq> ''__proto__''" by simp_all
  show ?thesis
    using unconditioned_selection_first [of
        "test_heap (test_win ''https://example.com'' None False 1)
          (test_element [(''useSameDomainRenderingUntilDeprecated'', ''1'')] []) []"
        test_env True ?w1 "''21061146''"] r g b
    by blast
qed

section \<open>The flag map\<close>

lemma effect_doubleclickIsA4AEnabled:
  "\<exists>evs. effect h (doubleclickIsA4AEnabled X u h) evs"
  using effect_isA4aEnabled[of h X u] unfolding doubleclickIsA4AEnabled_def by blast

lemma effect_shouldUseFastFetch: "effect h (shouldUseFastFetch X u h) []"
  by (simp add: shouldUseFastFetch_eq effect_def logged_def recorded_refl)

lemma effect_entries:
  assumes "effect h r evs" "(k, v) \<in> set (activeExperiments (singleton (snd r)))"
  shows "(k, v) \<in> set (activeExperiments (singleton h)) \<or>
         forcedAndAdded (newCalls h (snd r)) (k, v)"
  using assms effect_newCalls[OF assms(1)]
  unfolding effect_def recorded_def forcedAndAdded_def by auto

lemma effect_keys:
  "effect h r evs \<Longrightarrow>
   set (Object_keys (activeExperiments (singleton h)))
     \<subseteq> set (Object_keys (activeExperiments (singleton (snd r))))"
  by (simp add: effect_def recorded_def)

lemma forcedAndAdded_append:
  "forcedAndAdded evs p \<or> forcedAndAdded evs2 p \<Longrightarrow> forcedAndAdded (evs @ evs2) p"
  by (cases p) (auto simp: forcedAndAdded_def forcedIds_append addedIds_append)

lemma session_forced:
  "(\<forall>p \<in> set (activeExperiments (fst st)). forcedAndAdded (snd st) p) \<Longrightarrow>
   (\<forall>p \<in> set (activeExperiments (fst (session X rs st))).
      forcedAndAdded (snd (session X rs st)) p)"
proof (induction rs arbitrary: st)
  case Nil
  then show ?case by simp
next
  case (Cons rq rs)
  obtain w el u where rq: "rq = (w, el, u)" by (cases rq)
  let ?h = "\<lparr>win = w, element = el, singleton = fst st, calls = snd st\<rparr>"
  let ?h1 = "snd (doubleclickIsA4AEnabled X u ?h)"
  obtain evs where e: "effect ?h (doubleclickIsA4AEnabled X u ?h) evs"
    using effect_doubleclickIsA4AEnabled by blast
  then have c: "calls ?h1 = snd st @ evs" and n: "newCalls ?h ?h1 = evs"
    using effect_newCalls[OF e] by (simp_all add: effect_def logged_def)
  have "\<forall>p \<in> set (activeExperiments (singleton ?h1)). forcedAndAdded (calls ?h1) p"
  proof
    fix p assume p: "p \<in> set (activeExperiments (singleton ?h1))"
    obtain k v where kv: "p = (k, v)" by (cases p)
    from effect_entries[OF e, of k v] p kv n
    have "p \<in> set (activeExperiments (fst st)) \<or> forcedAndAdded evs p" by simp
    with Cons.prems have "forcedAndAdded (snd st) p \<or> forcedAndAdded evs p" by blast
    with c show "forcedAndAdded (calls ?h1) p" by (simp add: forcedAndAdded_append)
  qed
  from Cons.IH[of "(singleton ?h1, calls ?h1)"] this rq show ?case
    by (simp add: Let_def)
qed

lemma session_keys:
  "set (Object_keys (activeExperiments (fst st)))
     \<subseteq> set (Object_keys (activeExperiments (fst (session X rs st))))"
proof (induction rs arbitrary: st)
  case Nil
  show ?case by simp
next
  case (Cons rq rs)
  obtain w el u where rq: "rq = (w, el, u)" by (cases rq)
  let ?h = "\<lparr>win = w, element = el, singleton = fst st, calls = snd st\<rparr>"
  let ?h1 = "snd (doubleclickIsA4AEnabled X u ?h)"
  obtain evs where e: "effect ?h (doubleclickIsA4AEnabled X u ?h) evs"
    using effect_doubleclickIsA4AEnabled by blast
  from effect_keys[OF e]
  have "set (Object_keys (activeExperiments (fst st)))
          \<subseteq> set (Object_keys (activeExperiments (singleton ?h1)))" by simp
  also have "\<dots> \<subseteq> set (Object_keys (activeExperiments
        (fst (session X rs (singleton ?h1, calls ?h1)))))"
    using Cons.IH[of "(singleton ?h1, calls ?h1)"] by simp
  finally show ?case using rq by (simp add: Let_def)
qed

lemma session_append: "session X (rs @ rs2) st = session X rs2 (session X rs st)"
  by (induction rs arbitrary: st) (auto simp: Let_def)

text \<open>
  Claim C5: every key of the flag map is an id that was forced. In one step (the
  unconditioned selection, one visit of the loop over the conditioned list) and in one call
  of \<open>doubleclickIsA4AEnabled\<close>, an entry of the map afterwards is an entry from before, or
  has the value \<open>true\<close> and an id that this very step passed to
  \<open>addExperimentIdToElement\<close> and to \<open>forceExperimentBranch\<close>. So after any sequence of calls
  on the singleton, every value in the map is \<open>true\<close> and every key was forced and added
  to an element.
\<close>

theorem active_experiments_were_forced:
  "(\<forall>p \<in> set (activeExperiments (singleton (snd (unconditionedSelection X h)))).
      p \<in> set (activeExperiments (singleton h)) \<or>
      forcedAndAdded (newCalls h (snd (unconditionedSelection X h))) p)
   \<and> (\<forall>p \<in> set (activeExperiments (singleton (snd (selectCallback X ex h)))).
      p \<in> set (activeExperiments (singleton h)) \<or>
      forcedAndAdded (newCalls h (snd (selectCallback X ex h))) p)
   \<and> (\<forall>p \<in> set (activeExperiments
                    (singleton (snd (doubleclickIsA4AEnabled X useRemoteHtml h)))).
      p \<in> set (activeExperiments (singleton h)) \<or>
      forcedAndAdded (newCalls h (snd (doubleclickIsA4AEnabled X useRemoteHtml h))) p)
   \<and> (\<forall>p \<in> set (activeExperiments (fst (session X rs (constructor, [])))).
      snd p \<and> forcedAndAdded (snd (session X rs (constructor, []))) p)"
proof (intro conjI ballI)
  fix p assume p: "p \<in> set (activeExperiments (singleton (snd (unconditionedSelection X h))))"
  obtain evs where e: "effect h (unconditionedSelection X h) evs"
    using effect_unconditionedSelection by blast
  from effect_entries[OF e, of "fst p" "snd p"] p
  show "p \<in> set (activeExperiments (singleton h)) \<or>
        forcedAndAdded (newCalls h (snd (unconditionedSelection X h))) p" by simp
next
  fix p assume p: "p \<in> set (activeExperiments (singleton (snd (selectCallback X ex h))))"
  obtain evs where e: "effect h (selectCallback X ex h) evs"
    using effect_selectCallback by blast
  from effect_entries[OF e, of "fst p" "snd p"] p
  show "p \<in> set (activeExperiments (singleton h)) \<or>
        forcedAndAdded (newCalls h (snd (selectCallback X ex h))) p" by simp
next
  fix p
  assume p: "p \<in> set (activeExperiments
                       (singleton (snd (doubleclickIsA4AEnabled X useRemoteHtml h))))"
  obtain evs where e: "effect h (doubleclickIsA4AEnabled X useRemoteHtml h) evs"
    using effect_doubleclickIsA4AEnabled by blast
  from effect_entries[OF e, of "fst p" "snd p"] p
  show "p \<in> set (activeExperiments (singleton h)) \<or>
        forcedAndAdded (newCalls h (snd (doubleclickIsA4AEnabled X useRemoteHtml h))) p"
    by simp
next
  fix p assume p: "p \<in> set (activeExperiments (fst (session X rs (constructor, []))))"
  have "\<forall>p \<in> set (activeExperiments (fst (constructor, []::event list))).
          forcedAndAdded (snd (constructor, []::event list)) p"
    by (simp add: constructor_def)
  from session_forced[OF this, of X rs] p
  have f: "forcedAndAdded (snd (session X rs (constructor, []))) p" by blast
  then show "snd p" by (cases p) (simp add: forcedAndAdded_def)
  from f show "forcedAndAdded (snd (session X rs (constructor, []))) p" .
qed

theorem active_experiments_were_forced_witness:
  "Object_keys (activeExperiments (fst (session test_env
      [(test_win ''https://cdn.ampproject.org'' None False 1, test_element [] [], False),
       (test_win ''https://example.com'' None False 0, test_element [] [], False)]
      (constructor, []))))
     = [''2092614'', ''21060932'', ''21061145'', ''21061146'']
   \<and> forcedAndAdded (snd (session test_env
      [(test_win ''https://cdn.ampproject.org'' None False 1, test_element [] [], False),
       (test_win ''https://example.com'' None False 0, test_element [] [], False)]
      (constructor, []))) (''21060932'', True)"
proof -
  let ?rs = "[(test_win ''https://cdn.ampproject.org'' None False 1, test_element [] [], False),
       (test_win ''https://example.com'' None False 0, test_element [] [], False)]"
  have a: "Object_keys (activeExperiments (fst (session test_env ?rs (constructor, []))))
     = [''2092614'', ''21060932'', ''21061145'', ''21061146'']"
    by code_simp
  have m: "(''21060932'', True)
             \<in> set (activeExperiments (fst (session test_env ?rs (constructor, []))))"
    by code_simp
  from active_experiments_were_forced [where X = test_env and rs = ?rs] m
  have "forcedAndAdded (snd (session test_env ?rs (constructor, []))) (''21060932'', True)"
    by blast
  with a show ?thesis by simp
qed

text \<open>
  Claim C6: the flag map is never reset. No method of the class removes a key, so the key
  set after a call of \<open>doubleclickIsA4AEnabled\<close>, whether it returned or threw, includes the
  key set before it; across a sequence of calls the key set only grows.
\<close>

theorem active_experiments_never_shrink:
  "set (Object_keys (activeExperiments (singleton h)))
     \<subseteq> set (Object_keys (activeExperiments
            (singleton (snd (maybeSelectExperiment X bs n h)))))
   \<and> set (Object_keys (activeExperiments (singleton h)))
     \<subseteq> set (Object_keys (activeExperiments (singleton (snd (unconditionedSelection X h)))))
   \<and> set (Object_keys (activeExperiments (singleton h)))
     \<subseteq> set (Object_keys (activeExperiments
            (singleton (snd (selectA4aExperiments X useRemoteHtml h)))))
   \<and> set (Object_keys (activeExperiments (singleton h)))
     \<subseteq> set (Object_keys (activeExperiments
            (singleton (snd (shouldUseFastFetch X useRemoteHtml h)))))
   \<and> set (Object_keys (activeExperiments (singleton h)))
     \<subseteq> set (Object_keys (activeExperiments
            (singleton (snd (doubleclickIsA4AEnabled X useRemoteHtml h)))))
   \<and> set (Object_keys (activeExperiments (fst (session X rs st))))
     \<subseteq> set (Object_keys (activeExperiments (fst (session X (rs @ rs2) st))))"
proof (intro conjI)
  show "set (Object_keys (activeExperiments (singleton h)))
     \<subseteq> set (Object_keys (activeExperiments
            (singleton (snd (maybeSelectExperiment X bs n h)))))"
    by simp
  show "set (Object_keys (activeExperiments (singleton h)))
     \<subseteq> set (Object_keys (activeExperiments (singleton (snd (unconditionedSelection X h)))))"
    using effect_unconditionedSelection[of h X] effect_keys by blast
  show "set (Object_keys (activeExperiments (singleton h)))
     \<subseteq> set (Object_keys (activeExperiments
            (singleton (snd (selectA4aExperiments X useRemoteHtml h)))))"
    using effect_selectA4aExperiments[of h X useRemoteHtml] effect_keys by blast
  show "set (Object_keys (activeExperiments (singleton h)))
     \<subseteq> set (Object_keys (activeExperiments
            (singleton (snd (shouldUseFastFetch X useRemoteHtml h)))))"
    by (simp add: shouldUseFastFetch_eq)
  show "set (Object_keys (activeExperiments (singleton h)))
     \<subseteq> set (Object_keys (activeExperiments
            (singleton (snd (doubleclickIsA4AEnabled X useRemoteHtml h)))))"
    using effect_doubleclickIsA4AEnabled[of h X useRemoteHtml] effect_keys by blast
  show "set (Object_keys (activeExperiments (fst (session X rs st))))
     \<subseteq> set (Object_keys (activeExperiments (fst (session X (rs @ rs2) st))))"
    using session_keys[of "session X rs st" X rs2] by (simp add: session_append)
qed

theorem active_experiments_never_shrink_witness:
  "Object_keys (activeExperiments (fst (session test_env
      [(test_win ''https://cdn.ampproject.org'' None False 1, test_element [] [], False)]
      (constructor, [])))) = [''2092614'', ''21061146'']
   \<and> Object_keys (activeExperiments (fst (session test_env
      ([(test_win ''https://cdn.ampproject.org'' None False 1, test_element [] [], False)] @
       [(test_win ''https://example.com'' None False 0, test_element [] [], False)])
      (constructor, [])))) = [''2092614'', ''21060932'', ''21061145'', ''21061146'']
   \<and> set (Object_keys (activeExperiments (fst (session test_env
      [(test_win ''https://cdn.ampproject.org'' None False 1, test_element [] [], False)]
      (constructor, [])))))
     \<subseteq> set (Object_keys (activeExperiments (fst (session test_env
      ([(test_win ''https://cdn.ampproject.org'' None False 1, test_element [] [], False)] @
       [(test_win ''https://example.com'' None False 0, test_element [] [], False)])
      (constructor, [])))))"
proof -
  have "Object_keys (activeExperiments (fst (session test_env
      [(test_win ''https://cdn.ampproject.org'' None False 1, test_element [] [], False)]
      (constructor, [])))) = [''2092614'', ''21061146'']"
    by code_simp
  moreover have "Object_keys (activeExperiments (fst (session test_env
      ([(test_win ''https://cdn.ampproject.org'' None False 1, test_element [] [], False)] @
       [(test_win ''https://example.com'' None False 0, test_element [] [], False)])
      (constructor, [])))) = [''2092614'', ''21060932'', ''21061145'', ''21061146'']"
    by code_simp
  ultimately show ?thesis
    using active_experiments_never_shrink [of _ test_env _ _ _
      "[(test_win ''https://cdn.ampproject.org'' None False 1, test_element [] [], False)]"
      "(constructor, [])"
      "[(test_win ''https://example.com'' None False 0, test_element [] [], False)]"]
    by blast
qed

section \<open>What the decision functions return\<close>

lemma effect_raised:
  "effect h r evs \<Longrightarrow> Raised e \<in> set (newCalls h (snd r)) \<Longrightarrow> fst r = Inl e"
  using effect_newCalls[of h r evs] by (simp add: effect_def logged_def)

lemma forEach_value: "fst (forEach_experiments X exs h) = Inr v \<Longrightarrow> v = Undefined"
  by (induction exs arbitrary: h) (auto split: prod.splits sum.splits)

lemma unconditionedSelection_value:
  "fst (unconditionedSelection X h) = Inr v \<Longrightarrow> v = Undefined"
  by (auto simp: unconditionedSelection_eq split: prod.splits sum.splits if_splits)

lemma selectA4aExperiments_value:
  "fst (selectA4aExperiments X u h) = Inr v \<Longrightarrow> v = Undefined"
  by (auto simp: selectA4aExperiments_def forEach_value split: prod.splits sum.splits)

text \<open>
  Claim C7: the experiment-branch decision returns a string or \<open>null\<close> for every input.
  The code does not: \<open>selectA4aExperiments\<close> assigns the branch to a variable declared
  outside the loop and never returns it, so for no window, element and flag does the call
  return a string or \<open>null\<close>; where it returns, it returns \<open>undefined\<close>. The same holds
  of \<open>unconditionedSelection_\<close>, whose comment announces a \<open>?string\<close>. On the CDN proxy,
  for an element without attributes, the branch \<open>2092614\<close> is selected and forced, and the
  call returns \<open>undefined\<close>.
\<close>

theorem selectA4aExperiments_returns_no_branch:
  "\<not> returnsStringOrNull (fst (selectA4aExperiments X useRemoteHtml h))
   \<and> \<not> returnsStringOrNull (fst (unconditionedSelection X h))
   \<and> fst (selectA4aExperiments test_env False
          (test_heap (test_win ''https://cdn.ampproject.org'' None False 1)
             (test_element [] []) [])) = Inr Undefined
   \<and> forcedIds (calls (snd (selectA4aExperiments test_env False
          (test_heap (test_win ''https://cdn.ampproject.org'' None False 1)
             (test_element [] []) [])))) = [''21061146'', ''2092614'']"
proof (intro conjI)
  show "\<not> returnsStringOrNull (fst (selectA4aExperiments X useRemoteHtml h))"
    using selectA4aExperiments_value[of X useRemoteHtml h]
    by (cases "fst (selectA4aExperiments X useRemoteHtml h)")
       (auto simp: returnsStringOrNull_def isStringOrNull_def)
  show "\<not> returnsStringOrNull (fst (unconditionedSelection X h))"
    using unconditionedSelection_value[of X h]
    by (cases "fst (unconditionedSelection X h)")
       (auto simp: returnsStringOrNull_def isStringOrNull_def)
  show "fst (selectA4aExperiments test_env False
          (test_heap (test_win ''https://cdn.ampproject.org'' None False 1)
             (test_element [] []) [])) = Inr Undefined"
    by code_simp
  show "forcedIds (calls (snd (selectA4aExperiments test_env False
          (test_heap (test_win ''https://cdn.ampproject.org'' None False 1)
             (test_element [] []) [])))) = [''21061146'', ''2092614'']"
    by code_simp
qed

section \<open>The two decisions in sequence\<close>

text \<open>
  Claim C8: \<open>doubleclickIsA4AEnabled\<close> makes both decisions in sequence. Every call begins
  with the unconditioned selection of \<open>selectA4aExperiments\<close>, and leaves the window, the
  element and the singleton as \<open>selectA4aExperiments\<close> leaves them; when the selection has
  returned, the call ends as \<open>shouldUseFastFetch\<close> ends for the same flag on those objects.
  When the flag map then has no key whose read and call throws, that is the boolean:
  whether the element is then eligible and the window on the CDN proxy.
\<close>

theorem doubleclickIsA4AEnabled_selects_then_decides:
  "(\<exists>rest. newCalls h (snd (doubleclickIsA4AEnabled X useRemoteHtml h)) =
      SelectCall ''expUnconditionedDoubleclick'' (Some [''21061145'', ''21061146'']) # rest)
   \<and> snd (doubleclickIsA4AEnabled X useRemoteHtml h)
       = snd (selectA4aExperiments X useRemoteHtml h)
   \<and> (fst (selectA4aExperiments X useRemoteHtml h) = Inr v \<longrightarrow>
       doubleclickIsA4AEnabled X useRemoteHtml h
         = shouldUseFastFetch X useRemoteHtml (snd (selectA4aExperiments X useRemoteHtml h))
       \<and> (noThrowingKey (activeExperiments
             (singleton (snd (selectA4aExperiments X useRemoteHtml h)))) \<longrightarrow>
          fst (doubleclickIsA4AEnabled X useRemoteHtml h)
            = Inr (Boolean
                (isFastFetchEligible useRemoteHtml
                   (element (snd (selectA4aExperiments X useRemoteHtml h)))
                 \<and> isCdnProxy X (win (snd (selectA4aExperiments X useRemoteHtml h)))))))"
proof (intro conjI impI)
  show "\<exists>rest. newCalls h (snd (doubleclickIsA4AEnabled X useRemoteHtml h)) =
      SelectCall ''expUnconditionedDoubleclick'' (Some [''21061145'', ''21061146'']) # rest"
    using effect_isA4aEnabled[of h X useRemoteHtml] effect_newCalls
    unfolding DOUBLECLICK_UNCONDITIONED_EXPERIMENT_NAME_def doubleclickIsA4AEnabled_def
    by blast
  show "snd (doubleclickIsA4AEnabled X useRemoteHtml h)
       = snd (selectA4aExperiments X useRemoteHtml h)"
    by (simp add: doubleclickIsA4AEnabled_def isA4aEnabled_def
          split: prod.splits sum.splits)
next
  assume s: "fst (selectA4aExperiments X useRemoteHtml h) = Inr v"
  then show "doubleclickIsA4AEnabled X useRemoteHtml h
         = shouldUseFastFetch X useRemoteHtml (snd (selectA4aExperiments X useRemoteHtml h))"
    by (auto simp: doubleclickIsA4AEnabled_def isA4aEnabled_def split: prod.splits sum.splits)
next
  assume s: "fst (selectA4aExperiments X useRemoteHtml h) = Inr v"
     and n: "noThrowingKey (activeExperiments
               (singleton (snd (selectA4aExperiments X useRemoteHtml h))))"
  then show "fst (doubleclickIsA4AEnabled X useRemoteHtml h)
         = Inr (Boolean
             (isFastFetchEligible useRemoteHtml
                (element (snd (selectA4aExperiments X useRemoteHtml h)))
              \<and> isCdnProxy X (win (snd (selectA4aExperiments X useRemoteHtml h)))))"
    by (auto simp: doubleclickIsA4AEnabled_def isA4aEnabled_def shouldUseFastFetch_eq
             split: prod.splits sum.splits)
qed

theorem doubleclickIsA4AEnabled_selects_then_decides_witness:
  "fst (selectA4aExperiments test_env True
          (test_heap (test_win ''https://cdn.ampproject.org'' (Some ''4'') False 0)
             (test_element [(''rtc-config'', ''{}'')] []) [])) = Inr Undefined
   \<and> doubleclickIsA4AEnabled test_env True
          (test_heap (test_win ''https://cdn.ampproject.org'' (Some ''4'') False 0)
             (test_element [(''rtc-config'', ''{}'')] []) [])
     = shouldUseFastFetch test_env True
         (snd (selectA4aExperiments test_env True
            (test_heap (test_win ''https://cdn.ampproject.org'' (Some ''4'') False 0)
               (test_element [(''rtc-config'', ''{}'')] []) [])))
   \<and> fst (doubleclickIsA4AEnabled test_env True
          (test_heap (test_win ''https://cdn.ampproject.org'' (Some ''4'') False 0)
             (test_element [(''rtc-config'', ''{}'')] []) [])) = Inr (Boolean True)
   \<and> calls (snd (doubleclickIsA4AEnabled test_env True
          (test_heap (test_win ''https://cdn.ampproject.org'' (Some ''4'') False 0)
             (test_element [(''rtc-config'', ''{}'')] []) [])))
     = [SelectCall ''expUnconditionedDoubleclick'' (Some [''21061145'', ''21061146'']),
        BranchCall ''expUnconditionedDoubleclick'',
        AddIdCall ''21061145'',
        ForceCall ''expUnconditionedDoubleclick'' ''21061145'',
        AddIdCall ''21060729'',
        ForceCall ''expDoubleclickA4A'' ''21060729'']"
proof -
  let ?h = "test_heap (test_win ''https://cdn.ampproject.org'' (Some ''4'') False 0)
             (test_element [(''rtc-config'', ''{}'')] []) []"
  have a: "fst (selectA4aExperiments test_env True ?h) = Inr Undefined"
    by code_simp
  have b: "calls (snd (selectA4aExperiments test_env True ?h))
     = [SelectCall ''expUnconditionedDoubleclick'' (Some [''21061145'', ''21061146'']),
        BranchCall ''expUnconditionedDoubleclick'',
        AddIdCall ''21061145'',
        ForceCall ''expUnconditionedDoubleclick'' ''21061145'',
        AddIdCall ''21060729'',
        ForceCall ''expDoubleclickA4A'' ''21060729'']"
    by code_simp
  have n: "noThrowingKey (activeExperiments
             (singleton (snd (selectA4aExperiments test_env True ?h))))"
    by code_simp
  have e: "isFastFetchEligible True (element (snd (selectA4aExperiments test_env True ?h)))"
    by code_simp
  have c: "isCdnProxy test_env (win (snd (selectA4aExperiments test_env True ?h)))"
    by code_simp
  note t = doubleclickIsA4AEnabled_selects_then_decides [where X = test_env
        and useRemoteHtml = True and v = Undefined and h = ?h]
  from t have s: "snd (doubleclickIsA4AEnabled test_env True ?h)
     = snd (selectA4aExperiments test_env True ?h)"
    by blast
  from t a have d: "doubleclickIsA4AEnabled test_env True ?h
     = shouldUseFastFetch test_env True (snd (selectA4aExperiments test_env True ?h))"
    by blast
  from t a n have "fst (doubleclickIsA4AEnabled test_env True ?h)
     = Inr (Boolean
         (isFastFetchEligible True (element (snd (selectA4aExperiments test_env True ?h)))
          \<and> isCdnProxy test_env (win (snd (selectA4aExperiments test_env True ?h)))))"
    by blast
  with e c have v: "fst (doubleclickIsA4AEnabled test_env True ?h) = Inr (Boolean True)"
    by simp
  from a d v b s show ?thesis by simp
qed

section \<open>Exceptions of the bucketing utility\<close>

lemma maybeSelectExperiment_raises:
  "(fst (maybeSelectExperiment X bs n h) = Inl e) =
   (fst (randomlySelectUnsetExperiments X (win h)
           [(n, \<lparr>isTrafficEligible = (\<lambda>w. True), branches = bs\<rparr>)]) = Inl e
    \<or> (fst (randomlySelectUnsetExperiments X (win h)
           [(n, \<lparr>isTrafficEligible = (\<lambda>w. True), branches = bs\<rparr>)]) = Inr ()
        \<and> getExperimentBranch X
            (snd (randomlySelectUnsetExperiments X (win h)
               [(n, \<lparr>isTrafficEligible = (\<lambda>w. True), branches = bs\<rparr>)])) n = Inl e))"
  by (auto simp: maybeSelectExperiment_def Let_def split: prod.splits sum.splits)

lemma unconditionedSelection_raises:
  "fst (unconditionedSelection X h) = Inl e \<Longrightarrow>
   singleton (snd (unconditionedSelection X h)) = singleton h"
proof -
  assume a: "fst (unconditionedSelection X h) = Inl e"
  obtain r h1 where m: "maybeSelectExperiment X (Some [''21061145'', ''21061146''])
      DOUBLECLICK_UNCONDITIONED_EXPERIMENT_NAME h = (r, h1)"
    by (cases "maybeSelectExperiment X (Some [''21061145'', ''21061146''])
      DOUBLECLICK_UNCONDITIONED_EXPERIMENT_NAME h")
  then have s: "singleton h1 = singleton h"
    using maybeSelectExperiment_singleton[of X "Some [''21061145'', ''21061146'']"
      DOUBLECLICK_UNCONDITIONED_EXPERIMENT_NAME h] by simp
  from a m s show ?thesis
    by (cases r) (simp_all add: unconditionedSelection_eq split: if_splits)
qed

lemma selectCallback_raises:
  "fst (selectCallback X ex h) = Inl e \<Longrightarrow>
   singleton (snd (selectCallback X ex h)) = singleton h"
proof -
  assume a: "fst (selectCallback X ex h) = Inl e"
  obtain r h1 where m: "maybeSelectExperiment X (experimentBranchIds ex) (experimentName ex) h
      = (r, h1)"
    by (cases "maybeSelectExperiment X (experimentBranchIds ex) (experimentName ex) h")
  then have s: "singleton h1 = singleton h"
    using maybeSelectExperiment_singleton[of X "experimentBranchIds ex" "experimentName ex" h]
    by simp
  from a m s show ?thesis
    by (cases r) (simp_all add: selectCallback_eq split: if_splits)
qed

text \<open>
  Claim C9: the file handles no failure. A call of \<open>doubleclickIsA4AEnabled\<close> during which
  the bucketing utility threw \<open>e\<close> ends in the exception \<open>e\<close>, and
  \<open>maybeSelectExperiment\<close> ends in \<open>e\<close> exactly when \<open>randomlySelectUnsetExperiments\<close> or,
  after it, \<open>getExperimentBranch\<close> threw \<open>e\<close>. The exception passes through every method on
  the way: a selection step in which it is thrown (the unconditioned selection, a visit of
  the loop) leaves the flag map as it was and ends the method that made the step, and
  \<open>doubleclickIsA4AEnabled\<close> ends as \<open>selectA4aExperiments\<close> did.
\<close>

theorem bucketing_exceptions_propagate:
  "(Raised e \<in> set (newCalls h (snd (doubleclickIsA4AEnabled X useRemoteHtml h)))
     \<longrightarrow> fst (doubleclickIsA4AEnabled X useRemoteHtml h) = Inl e)
   \<and> (fst (maybeSelectExperiment X bs n h) = Inl e) =
      (fst (randomlySelectUnsetExperiments X (win h)
              [(n, \<lparr>isTrafficEligible = (\<lambda>w. True), branches = bs\<rparr>)]) = Inl e
       \<or> (fst (randomlySelectUnsetExperiments X (win h)
              [(n, \<lparr>isTrafficEligible = (\<lambda>w. True), branches = bs\<rparr>)]) = Inr ()
           \<and> getExperimentBranch X
               (snd (randomlySelectUnsetExperiments X (win h)
                  [(n, \<lparr>isTrafficEligible = (\<lambda>w. True), branches = bs\<rparr>)])) n = Inl e))
   \<and> singleton (snd (maybeSelectExperiment X bs n h)) = singleton h
   \<and> (fst (unconditionedSelection X h) = Inl e \<longrightarrow>
       singleton (snd (unconditionedSelection X h)) = singleton h
       \<and> selectA4aExperiments X useRemoteHtml h = unconditionedSelection X h)
   \<and> (fst (selectCallback X ex h) = Inl e \<longrightarrow>
       singleton (snd (selectCallback X ex h)) = singleton h
       \<and> forEach_experiments X (ex # exs) h = selectCallback X ex h)
   \<and> (fst (selectA4aExperiments X useRemoteHtml h) = Inl e \<longrightarrow>
       doubleclickIsA4AEnabled X useRemoteHtml h = selectA4aExperiments X useRemoteHtml h)"
proof (intro conjI impI)
  obtain evs where ef: "effect h (doubleclickIsA4AEnabled X useRemoteHtml h) evs"
    using effect_doubleclickIsA4AEnabled by blast
  assume "Raised e \<in> set (newCalls h (snd (doubleclickIsA4AEnabled X useRemoteHtml h)))"
  then show "fst (doubleclickIsA4AEnabled X useRemoteHtml h) = Inl e"
    by (rule effect_raised[OF ef])
next
  show "(fst (maybeSelectExperiment X bs n h) = Inl e) =
      (fst (randomlySelectUnsetExperiments X (win h)
              [(n, \<lparr>isTrafficEligible = (\<lambda>w. True), branches = bs\<rparr>)]) = Inl e
       \<or> (fst (randomlySelectUnsetExperiments X (win h)
              [(n, \<lparr>isTrafficEligible = (\<lambda>w. True), branches = bs\<rparr>)]) = Inr ()
           \<and> getExperimentBranch X
               (snd (randomlySelectUnsetExperiments X (win h)
                  [(n, \<lparr>isTrafficEligible = (\<lambda>w. True), branches = bs\<rparr>)])) n = Inl e))"
    by (rule maybeSelectExperiment_raises)
  show "singleton (snd (maybeSelectExperiment X bs n h)) = singleton h"
    by simp
next
  assume a: "fst (unconditionedSelection X h) = Inl e"
  then show "singleton (snd (unconditionedSelection X h)) = singleton h"
    by (rule unconditionedSelection_raises)
  from a show "selectA4aExperiments X useRemoteHtml h = unconditionedSelection X h"
    by (auto simp: selectA4aExperiments_def split: prod.splits sum.splits)
next
  assume a: "fst (selectCallback X ex h) = Inl e"
  then show "singleton (snd (selectCallback X ex h)) = singleton h"
    by (rule selectCallback_raises)
  from a show "forEach_experiments X (ex # exs) h = selectCallback X ex h"
    by (auto split: prod.splits sum.splits)
next
  assume "fst (selectA4aExperiments X useRemoteHtml h) = Inl e"
  then show "doubleclickIsA4AEnabled X useRemoteHtml h = selectA4aExperiments X useRemoteHtml h"
    by (auto simp: doubleclickIsA4AEnabled_def isA4aEnabled_def split: prod.splits sum.splits)
qed

theorem bucketing_exceptions_propagate_witness:
  "Raised (JsError ''getExperimentBranch'')
        \<in> set (newCalls
             (test_heap ((test_win ''https://cdn.ampproject.org'' None False 1)
                           \<lparr>tw_failBranch := [''expDoubleclickA4A'']\<rparr>)
                (test_element [] []) [])
             (snd (doubleclickIsA4AEnabled test_env False
                (test_heap ((test_win ''https://cdn.ampproject.org'' None False 1)
                              \<lparr>tw_failBranch := [''expDoubleclickA4A'']\<rparr>)
                   (test_element [] []) []))))
   \<and> fst (doubleclickIsA4AEnabled test_env False
          (test_heap ((test_win ''https://cdn.ampproject.org'' None False 1)
                        \<lparr>tw_failBranch := [''expDoubleclickA4A'']\<rparr>)
             (test_element [] []) []))
     = Inl (JsError ''getExperimentBranch'')
   \<and> activeExperiments (singleton (snd (doubleclickIsA4AEnabled test_env False
          (test_heap ((test_win ''https://cdn.ampproject.org'' None False 1)
                        \<lparr>tw_failBranch := [''expDoubleclickA4A'']\<rparr>)
             (test_element [] []) []))))
     = [(''21061146'', True)]
   \<and> singleton (snd (unconditionedSelection test_env
          (test_heap ((test_win ''https://cdn.ampproject.org'' None False 1)
                        \<lparr>tw_failSelect := [''expUnconditionedDoubleclick'']\<rparr>)
             (test_element [] []) [(''2092613'', True)])))
     = \<lparr>activeExperiments = [(''2092613'', True)]\<rparr>"
proof -
  let ?h = "test_heap ((test_win ''https://cdn.ampproject.org'' None False 1)
                        \<lparr>tw_failBranch := [''expDoubleclickA4A'']\<rparr>)
             (test_element [] []) []"
  let ?g = "test_heap ((test_win ''https://cdn.ampproject.org'' None False 1)
                        \<lparr>tw_failSelect := [''expUnconditionedDoubleclick'']\<rparr>)
             (test_element [] []) [(''2092613'', True)]"
  have r: "Raised (JsError ''getExperimentBranch'')
             \<in> set (newCalls ?h (snd (doubleclickIsA4AEnabled test_env False ?h)))"
    by code_simp
  have b: "activeExperiments (singleton (snd (doubleclickIsA4AEnabled test_env False ?h)))
     = [(''21061146'', True)]"
    by code_simp
  have c: "fst (unconditionedSelection test_env ?g)
     = Inl (JsError ''randomlySelectUnsetExperiments'')"
    by code_simp
  note t1 = bucketing_exceptions_propagate [where X = test_env and useRemoteHtml = False
        and e = "JsError ''getExperimentBranch''" and h = ?h]
  note t2 = bucketing_exceptions_propagate [where X = test_env
        and e = "JsError ''randomlySelectUnsetExperiments''" and h = ?g]
  from t1 r have a: "fst (doubleclickIsA4AEnabled test_env False ?h)
     = Inl (JsError ''getExperimentBranch'')"
    by blast
  from t2 c have u: "singleton (snd (unconditionedSelection test_env ?g)) = singleton ?g"
    by blast
  from a r b u show ?thesis by (simp add: test_heap_def)
qed

section \<open>The beta attribute\<close>

lemma experiments_beta_criteria:
  "map (\<lambda>ex. diversionCriteria ex ()) (experiments manual True True url dev True)
     = [False, False, False, False, True]"
  by (simp add: experiments_def)

lemma forEach_beta:
  "forEach_experiments X (experiments manual True True url dev True) h
     = (Inr Undefined,
        forceAndRecord X DOUBLECLICK_A4A_EXPERIMENT_NAME BETA_EXPERIMENT_ID h)"
  by (simp add: experiments_def selectCallback_eq truthy_def propertyKey_def
        BETA_EXPERIMENT_ID_def)

text \<open>
  Claim C10: when the unconditioned selection has returned and the element is then
  fast-fetch eligible, on the CDN proxy and carries the attribute
  \<open>data-use-beta-a4a-implementation\<close>, only the last entry of the conditioned list applies,
  whatever the URL experiment id and the mode are. \<open>selectA4aExperiments\<close> then makes no
  further random selection: it adds \<open>2077831\<close> to the element, forces it under
  \<open>expDoubleclickA4A\<close>, and sets it in the flag map, and does nothing else.
\<close>

theorem beta_attribute_takes_precedence:
  assumes "fst (unconditionedSelection X h) = Inr v"
      and "h1 = snd (unconditionedSelection X h)"
      and "isFastFetchEligible useRemoteHtml (element h1)"
      and "isCdnProxy X (win h1)"
      and "hasAttribute (element h1) ''data-use-beta-a4a-implementation''"
  shows "map (\<lambda>ex. diversionCriteria ex ())
           (experiments (MANUAL_EXPERIMENT_ID X)
              (isFastFetchEligible useRemoteHtml (element h1))
              (isCdnProxy X (win h1))
              (extractUrlExperimentId X (win h1) (element h1))
              (localDev (getMode X (win h1)) \<or> test (getMode X (win h1)))
              (hasAttribute (element h1) BETA_ATTRIBUTE))
           = [False, False, False, False, True]
         \<and> fst (selectA4aExperiments X useRemoteHtml h) = Inr Undefined
         \<and> newCalls h1 (snd (selectA4aExperiments X useRemoteHtml h))
           = [AddIdCall ''2077831'', ForceCall ''expDoubleclickA4A'' ''2077831'']
         \<and> activeExperiments (singleton (snd (selectA4aExperiments X useRemoteHtml h)))
           = setProperty ''2077831'' True (activeExperiments (singleton h1))
         \<and> win (snd (selectA4aExperiments X useRemoteHtml h))
           = forceExperimentBranch X (win h1) ''expDoubleclickA4A'' ''2077831''
         \<and> element (snd (selectA4aExperiments X useRemoteHtml h))
           = addExperimentIdToElement X ''2077831'' (element h1)"
proof -
  from assms(5) have b: "hasAttribute (element h1) BETA_ATTRIBUTE"
    by (simp add: BETA_ATTRIBUTE_def)
  let ?exs = "experiments (MANUAL_EXPERIMENT_ID X) True True
                (extractUrlExperimentId X (win h1) (element h1))
                (localDev (getMode X (win h1)) \<or> test (getMode X (win h1))) True"
  from assms(1,2) have "selectA4aExperiments X useRemoteHtml h
      = forEach_experiments X
          (experiments (MANUAL_EXPERIMENT_ID X)
              (isFastFetchEligible useRemoteHtml (element h1))
              (isCdnProxy X (win h1))
              (extractUrlExperimentId X (win h1) (element h1))
              (localDev (getMode X (win h1)) \<or> test (getMode X (win h1)))
              (hasAttribute (element h1) BETA_ATTRIBUTE)) h1"
    by (auto simp: selectA4aExperiments_def split: prod.splits sum.splits)
  with assms(3,4) b have s: "selectA4aExperiments X useRemoteHtml h
      = (Inr Undefined,
         forceAndRecord X DOUBLECLICK_A4A_EXPERIMENT_NAME BETA_EXPERIMENT_ID h1)"
    by (simp add: forEach_beta)
  from assms(3,4) b have c: "map (\<lambda>ex. diversionCriteria ex ())
           (experiments (MANUAL_EXPERIMENT_ID X)
              (isFastFetchEligible useRemoteHtml (element h1))
              (isCdnProxy X (win h1))
              (extractUrlExperimentId X (win h1) (element h1))
              (localDev (getMode X (win h1)) \<or> test (getMode X (win h1)))
              (hasAttribute (element h1) BETA_ATTRIBUTE))
           = [False, False, False, False, True]"
    by (simp add: experiments_beta_criteria)
  from s c show ?thesis
    by (simp add: forceAndRecord_def newCalls_def DOUBLECLICK_A4A_EXPERIMENT_NAME_def
          BETA_EXPERIMENT_ID_def assignProperty_def)
qed

theorem beta_attribute_takes_precedence_witness:
  "calls (snd (selectA4aExperiments test_env False
      (test_heap (test_win ''https://cdn.ampproject.org'' (Some ''-1'') True 0)
         (test_element [(''data-use-beta-a4a-implementation'', [])]
            [(''useBetaA4aImplementation'', [])]) [])))
     = [SelectCall ''expUnconditionedDoubleclick'' (Some [''21061145'', ''21061146'']),
        BranchCall ''expUnconditionedDoubleclick'',
        AddIdCall ''21061145'',
        ForceCall ''expUnconditionedDoubleclick'' ''21061145'',
        AddIdCall ''2077831'',
        ForceCall ''expDoubleclickA4A'' ''2077831'']
   \<and> newCalls
       (snd (unconditionedSelection test_env
          (test_heap (test_win ''https://cdn.ampproject.org'' (Some ''-1'') True 0)
             (test_element [(''data-use-beta-a4a-implementation'', [])]
                [(''useBetaA4aImplementation'', [])]) [])))
       (snd (selectA4aExperiments test_env False
          (test_heap (test_win ''https://cdn.ampproject.org'' (Some ''-1'') True 0)
             (test_element [(''data-use-beta-a4a-implementation'', [])]
                [(''useBetaA4aImplementation'', [])]) [])))
     = [AddIdCall ''2077831'', ForceCall ''expDoubleclickA4A'' ''2077831'']
   \<and> looseEqNumber (Some ''-1'') (- 1)"
proof -
  let ?h = "test_heap (test_win ''https://cdn.ampproject.org'' (Some ''-1'') True 0)
         (test_element [(''data-use-beta-a4a-implementation'', [])]
            [(''useBetaA4aImplementation'', [])]) []"
  have a: "fst (unconditionedSelection test_env ?h) = Inr Undefined" by code_simp
  have e: "isFastFetchEligible False (element (snd (unconditionedSelection test_env ?h)))"
    by code_simp
  have c: "isCdnProxy test_env (win (snd (unconditionedSelection test_env ?h)))"
    by code_simp
  have b: "hasAttribute (element (snd (unconditionedSelection test_env ?h)))
             ''data-use-beta-a4a-implementation''"
    by code_simp
  have l: "calls (snd (selectA4aExperiments test_env False ?h))
     = [SelectCall ''expUnconditionedDoubleclick'' (Some [''21061145'', ''21061146'']),
        BranchCall ''expUnconditionedDoubleclick'',
        AddIdCall ''21061145'',
        ForceCall ''expUnconditionedDoubleclick'' ''21061145'',
        AddIdCall ''2077831'',
        ForceCall ''expDoubleclickA4A'' ''2077831'']"
    by code_simp
  have m: "looseEqNumber (Some ''-1'') (- 1)" by code_simp
  from beta_attribute_takes_precedence [OF a refl e c b] l m
  show ?thesis by blast
qed

end
